theory Spec2Isabelle
  imports Main "HOL-Library.Char_ord" "HOL-Library.List_Lexorder"
begin

section \<open>Exceptions, trace and the OS shim\<close>

text \<open>
  The exception classes of \<^verbatim>\<open>exceptions.hpp\<close>; each carries the \<^verbatim>\<open>error_desc\<close>
  string handed to \<^verbatim>\<open>std::runtime_error\<close>.
\<close>

datatype exn =
    LibraryLoadException string
  | LibraryUnloadException string
  | CreateClassException string
  | NoPluginLoaderExistsException string

fun what :: "exn \<Rightarrow> string" where
  "what (LibraryLoadException m) = m"
| "what (LibraryUnloadException m) = m"
| "what (CreateClassException m) = m"
| "what (NoPluginLoaderExistsException m) = m"

text \<open>
  Calls that leave the modelled code are recorded in order: a console line (only its
  level is kept) and the two calls from a \<^verbatim>\<open>PluginLoader\<close> into the registry's
  \<^verbatim>\<open>impl::loadLibrary\<close> and \<^verbatim>\<open>impl::unloadLibrary\<close> (library path, calling loader).
\<close>

datatype log_level = Debug | Inform | Warn | Error

datatype event =
    Log log_level
  | ImplLoadLibrary string nat
  | ImplUnloadLibrary string nat

text \<open>
  What \<^verbatim>\<open>dlopen\<close> does for a path. It maps the library, whose static initialisers call
  \<^verbatim>\<open>registerPlugin<Derived, Base>(class_name, base_class_name)\<close> once for each entry
  \<open>(Derived, Base, class_name, base_class_name)\<close>; or it fails: no file is found
  under the path, or the file is found and a library that it needs (named by the
  argument) is not, or it fails otherwise, and \<^verbatim>\<open>dlerror()\<close> then returns the given
  string or a null pointer.
\<close>

datatype dl_failure =
    NoSuchFile
  | MissingDependency string
  | OtherFailure "string option"

datatype dl_result =
    DlFail dl_failure
  | DlOk "(string \<times> string \<times> string \<times> string) list"

text \<open>
  The text of \<^verbatim>\<open>dlerror()\<close> after \<^verbatim>\<open>dlopen(path, ...)\<close> has failed, as the GNU C
  library words it: the name of the file that could not be opened, then the reason.
\<close>

fun dlerror :: "string \<Rightarrow> dl_failure \<Rightarrow> string option" where
  "dlerror path NoSuchFile =
     Some (path @ '': cannot open shared object file: No such file or directory'')"
| "dlerror path (MissingDependency dep) =
     Some (dep @ '': cannot open shared object file: No such file or directory'')"
| "dlerror path (OtherFailure err) = err"

text \<open>
  A C++ \<^verbatim>\<open>int\<close> has 32 bits. The two counters of a loader are \<^verbatim>\<open>int\<close>s; what an
  increment or a decrement leaves in them is the integer result brought back into the
  range of \<^verbatim>\<open>int\<close>, as the compiled code does.
\<close>

definition int32 :: "int \<Rightarrow> int" where
  "int32 x = (x + 2147483648) mod 4294967296 - 2147483648"

section \<open>std::map\<close>

text \<open>
  A \<^verbatim>\<open>std::map\<close> is iterated in ascending key order whatever the order of insertion.
  It is an association list kept sorted by key; \<^verbatim>\<open>std::string\<close> keys compare
  lexicographically by byte, which is the order of \<open>char list\<close>.
\<close>

type_synonym ('k, 'v) cmap = "('k \<times> 'v) list"

fun cmap_find :: "'k \<Rightarrow> ('k, 'v) cmap \<Rightarrow> 'v option" where
  "cmap_find k [] = None"
| "cmap_find k ((k', v) # m) = (if k = k' then Some v else cmap_find k m)"

text \<open>\<^verbatim>\<open>m[k] = v\<close>: replaces the value of an existing key, inserts a new key in its place.\<close>

fun cmap_assign :: "'k::linorder \<Rightarrow> 'v \<Rightarrow> ('k, 'v) cmap \<Rightarrow> ('k, 'v) cmap" where
  "cmap_assign k v [] = [(k, v)]"
| "cmap_assign k v ((k', v') # m) =
     (if k < k' then (k, v) # (k', v') # m
      else if k = k' then (k, v) # m
      else (k', v') # cmap_assign k v m)"

fun cmap_erase :: "'k \<Rightarrow> ('k, 'v) cmap \<Rightarrow> ('k, 'v) cmap" where
  "cmap_erase k [] = []"
| "cmap_erase k ((k', v) # m) = (if k = k' then m else (k', v) # cmap_erase k m)"

text \<open>The invariant of a \<^verbatim>\<open>std::map\<close>: the keys ascend strictly, so no key occurs twice.\<close>

definition cmap_wf :: "('k::linorder, 'v) cmap \<Rightarrow> bool" where
  "cmap_wf m = sorted_wrt (<) (map fst m)"

section \<open>Factories (meta objects)\<close>

text \<open>A \<^verbatim>\<open>PluginLoader *\<close>: \<open>None\<close> is \<^verbatim>\<open>nullptr\<close>, \<open>Some a\<close> the loader at address \<open>a\<close>.\<close>

type_synonym loader_ptr = "nat option"

text \<open>
  Modelled from the spec: \<^verbatim>\<open>meta_object.hpp\<close> (\<^verbatim>\<open>AbstractMetaObjectBase\<close>,
  \<^verbatim>\<open>MetaObject<Derived, Base>\<close>) is not among the sources. Spec, section 3: a Factory
  owns the derived-type name it answers to, the base capability, the path of the library
  that contributed it, a set of owning Loaders (normally one; zero if the library was
  mapped outside the loader) and a construction thunk. \<open>derived_type\<close> names the
  \<^verbatim>\<open>Derived\<close> class that the thunk constructs.
\<close>

record factory =
  class_name :: string
  base_class_name :: string
  derived_type :: string
  associated_library_path :: string
  owners :: "nat list"

definition MetaObject :: "string \<Rightarrow> string \<Rightarrow> string \<Rightarrow> factory" where
  "MetaObject derived cname bname =
     \<lparr>class_name = cname, base_class_name = bname, derived_type = derived,
      associated_library_path = [], owners = []\<rparr>"

text \<open>
  Modelled from the spec: \<^verbatim>\<open>isOwnedBy\<close> of the absent \<^verbatim>\<open>meta_object.hpp\<close>. Spec,
  section 4.2: a factory "is owned by loader", or "has no owner" (the question the
  code asks as \<^verbatim>\<open>isOwnedBy(nullptr)\<close>).
\<close>

fun isOwnedBy :: "factory \<Rightarrow> loader_ptr \<Rightarrow> bool" where
  "isOwnedBy f None = (owners f = [])"
| "isOwnedBy f (Some l) = (l \<in> set (owners f))"

text \<open>
  Modelled from the spec: \<^verbatim>\<open>addOwningPluginLoader\<close> of the absent
  \<^verbatim>\<open>meta_object.hpp\<close>. Spec, section 4.2: the new Factory's "owning loader is
  current_load_loader (or none)".
\<close>

fun addOwningPluginLoader :: "loader_ptr \<Rightarrow> factory \<Rightarrow> factory" where
  "addOwningPluginLoader None f = f"
| "addOwningPluginLoader (Some l) f = f\<lparr>owners := List.insert l (owners f)\<rparr>"

text \<open>
  Modelled from the spec: \<^verbatim>\<open>setAssociatedLibraryPath\<close> of the absent
  \<^verbatim>\<open>meta_object.hpp\<close>. Spec, section 4.2: the Factory's "contributing path is
  current_load_path (or empty)".
\<close>

definition setAssociatedLibraryPath :: "string \<Rightarrow> factory \<Rightarrow> factory" where
  "setAssociatedLibraryPath p f = f\<lparr>associated_library_path := p\<rparr>"

text \<open>
  The object built by \<^verbatim>\<open>factory->create()\<close>, that is \<^verbatim>\<open>new Derived\<close>: it is known by
  its dynamic type.
\<close>

datatype obj = Obj string

definition create :: "factory \<Rightarrow> obj" where
  "create f = Obj (derived_type f)"

section \<open>Process-wide state\<close>

text \<open>
  The function-local statics of \<^verbatim>\<open>plugin_loader_core.hpp\<close>, the static member
  \<^verbatim>\<open>PluginLoader::has_unmananged_instance_been_created_\<close>, the trace of console lines and
  registry calls (\<open>trace\<close>), and the dynamic linker. \<open>loaded_library_vector\<close> keeps, for each mapped library, its path and
  number of logical opens (spec, section 3, Mapped Library Record).
\<close>

record world =
  factory_map_map :: "(string, (string, factory) cmap) cmap"
  loaded_library_vector :: "(string \<times> nat) list"
  currently_loading_library_name :: string
  currently_active_plugin_loader :: loader_ptr
  non_pure_plugin_library_opened :: bool
  has_unmananged_instance_been_created :: bool
  trace :: "event list"
  dlopen :: "string \<Rightarrow> dl_result"

definition emit :: "event \<Rightarrow> world \<Rightarrow> world" where
  "emit e w = w\<lparr>trace := trace w @ [e]\<rparr>"

abbreviation logDebug :: "world \<Rightarrow> world" where "logDebug \<equiv> emit (Log Debug)"
abbreviation logInform :: "world \<Rightarrow> world" where "logInform \<equiv> emit (Log Inform)"
abbreviation logWarn :: "world \<Rightarrow> world" where "logWarn \<equiv> emit (Log Warn)"
abbreviation logError :: "world \<Rightarrow> world" where "logError \<equiv> emit (Log Error)"

text \<open>
  Modelled from the spec: the accessors below are declared in
  \<^verbatim>\<open>plugin_loader_core.hpp\<close> and defined in a file that is not among the sources.
  Spec, section 3, Global Registry: \<open>current_load_path\<close>, \<open>current_load_loader\<close>,
  \<open>non_pure_opened\<close> and \<open>factories\<close>, "mapping from base-capability identity to a
  mapping from derived-type name to Factory".
\<close>

definition getCurrentlyLoadingLibraryName :: "world \<Rightarrow> string" where
  "getCurrentlyLoadingLibraryName w = currently_loading_library_name w"

definition setCurrentlyLoadingLibraryName :: "string \<Rightarrow> world \<Rightarrow> world" where
  "setCurrentlyLoadingLibraryName n w = w\<lparr>currently_loading_library_name := n\<rparr>"

definition getCurrentlyActivePluginLoader :: "world \<Rightarrow> loader_ptr" where
  "getCurrentlyActivePluginLoader w = currently_active_plugin_loader w"

definition setCurrentlyActivePluginLoader :: "loader_ptr \<Rightarrow> world \<Rightarrow> world" where
  "setCurrentlyActivePluginLoader l w = w\<lparr>currently_active_plugin_loader := l\<rparr>"

definition hasANonPurePluginLibraryBeenOpened :: "world \<Rightarrow> bool" where
  "hasANonPurePluginLibraryBeenOpened w = non_pure_plugin_library_opened w"

definition set_hasANonPurePluginLibraryBeenOpened :: "bool \<Rightarrow> world \<Rightarrow> world" where
  "set_hasANonPurePluginLibraryBeenOpened hasIt w = w\<lparr>non_pure_plugin_library_opened := hasIt\<rparr>"

definition getFactoryMapForBaseClass :: "string \<Rightarrow> world \<Rightarrow> (string, factory) cmap" where
  "getFactoryMapForBaseClass base w =
     (case cmap_find base (factory_map_map w) of None \<Rightarrow> [] | Some m \<Rightarrow> m)"

text \<open>Writing through the reference returned by \<^verbatim>\<open>getFactoryMapForBaseClass\<close>.\<close>

definition setFactoryMapForBaseClass :: "string \<Rightarrow> (string, factory) cmap \<Rightarrow> world \<Rightarrow> world" where
  "setFactoryMapForBaseClass base m w =
     w\<lparr>factory_map_map := cmap_assign base m (factory_map_map w)\<rparr>"

section \<open>The registry functions of plugin_loader_core.hpp\<close>

text \<open>
  \<^verbatim>\<open>registerPlugin<Derived, Base>(class_name, base_class_name)\<close>; \<open>base\<close> is
  \<^verbatim>\<open>typeid(Base).name()\<close>, the key of the outer map.
\<close>

definition registerPlugin :: "string \<Rightarrow> string \<Rightarrow> string \<Rightarrow> string \<Rightarrow> world \<Rightarrow> world" where
  "registerPlugin derived base cname bname w =
     (let w1 = logDebug w;
          w2 = (if getCurrentlyActivePluginLoader w1 = None
                then set_hasANonPurePluginLibraryBeenOpened True (logDebug w1)
                else w1);
          new_factory =
            setAssociatedLibraryPath (getCurrentlyLoadingLibraryName w2)
              (addOwningPluginLoader (getCurrentlyActivePluginLoader w2)
                 (MetaObject derived cname bname));
          factoryMap = getFactoryMapForBaseClass base w2;
          w3 = (if cmap_find cname factoryMap \<noteq> None then logWarn w2 else w2);
          w4 = setFactoryMapForBaseClass base (cmap_assign cname new_factory factoryMap) w3
      in logDebug w4)"

definition createInstance :: "string \<Rightarrow> string \<Rightarrow> loader_ptr \<Rightarrow> world \<Rightarrow> (exn + obj) \<times> world" where
  "createInstance base derived_class_name loader w =
     (let factoryMap = getFactoryMapForBaseClass base w;
          factory = cmap_find derived_class_name factoryMap;
          w1 = (if factory \<noteq> None then w else logError w);
          obj = (case factory of
                   Some f \<Rightarrow> if isOwnedBy f loader then Some (create f) else None
                 | None \<Rightarrow> None)
      in case obj of
           Some ob \<Rightarrow> (Inr ob, logDebug w1)
         | None \<Rightarrow>
             (case factory of
                Some f \<Rightarrow>
                  if isOwnedBy f None then (Inr (create f), logDebug (logDebug w1))
                  else (Inl (CreateClassException
                          (''Could not create instance of type '' @ derived_class_name)), w1)
              | None \<Rightarrow>
                  (Inl (CreateClassException
                     (''Could not create instance of type '' @ derived_class_name)), w1)))"

text \<open>The loop of \<^verbatim>\<open>getAvailableClasses\<close> over the factory map, with its two vectors.\<close>

fun getAvailableClasses_loop ::
  "loader_ptr \<Rightarrow> (string, factory) cmap \<Rightarrow> string list \<Rightarrow> string list \<Rightarrow> string list \<times> string list" where
  "getAvailableClasses_loop loader [] classes classes_with_no_owner =
     (classes, classes_with_no_owner)"
| "getAvailableClasses_loop loader (it # rest) classes classes_with_no_owner =
     (if isOwnedBy (snd it) loader
      then getAvailableClasses_loop loader rest (classes @ [fst it]) classes_with_no_owner
      else if isOwnedBy (snd it) None
      then getAvailableClasses_loop loader rest classes (classes_with_no_owner @ [fst it])
      else getAvailableClasses_loop loader rest classes classes_with_no_owner)"

definition getAvailableClasses :: "string \<Rightarrow> loader_ptr \<Rightarrow> world \<Rightarrow> string list" where
  "getAvailableClasses base loader w =
     (case getAvailableClasses_loop loader (getFactoryMapForBaseClass base w) [] [] of
        (classes, classes_with_no_owner) \<Rightarrow> classes @ classes_with_no_owner)"

section \<open>SharedLibrary::load (shared_library_UNIX.cpp)\<close>

text \<open>
  \<^verbatim>\<open>SharedLibrary::load(path, flags)\<close> on an object whose \<^verbatim>\<open>_handle\<close> is null or not
  (\<open>handle_set\<close>). The flags only select \<^verbatim>\<open>RTLD_LOCAL\<close> or \<^verbatim>\<open>RTLD_GLOBAL\<close>. The
  static initialisers of a library that \<^verbatim>\<open>dlopen\<close> maps run before \<^verbatim>\<open>dlopen\<close> returns.
\<close>

fun run_static_initializers :: "(string \<times> string \<times> string \<times> string) list \<Rightarrow> world \<Rightarrow> world" where
  "run_static_initializers [] w = w"
| "run_static_initializers ((derived, base, cname, bname) # rs) w =
     run_static_initializers rs (registerPlugin derived base cname bname w)"

definition SharedLibrary_load :: "bool \<Rightarrow> string \<Rightarrow> world \<Rightarrow> (exn + unit) \<times> world" where
  "SharedLibrary_load handle_set path w =
     (if handle_set
      then (Inl (LibraryLoadException (''Library already loaded: '' @ path)), w)
      else case dlopen w path of
             DlFail reason \<Rightarrow>
               (Inl (LibraryLoadException
                  (''Could not load library: ''
                     @ (case dlerror path reason of Some err \<Rightarrow> err | None \<Rightarrow> path))), w)
           | DlOk regs \<Rightarrow> (Inr (), run_static_initializers regs w))"

section \<open>Library bookkeeping of the registry\<close>

text \<open>
  Modelled from the spec: \<^verbatim>\<open>impl::isLibraryLoaded\<close>,
  \<^verbatim>\<open>impl::isLibraryLoadedByAnybody\<close>, \<^verbatim>\<open>impl::loadLibrary\<close> and
  \<^verbatim>\<open>impl::unloadLibrary\<close> are declared in \<^verbatim>\<open>plugin_loader_core.hpp\<close> and defined in a
  file that is not among the sources. Spec, section 4.3: \<open>is_loaded\<close> is "true iff some
  Factory attributed to this path is owned by this Loader"; \<open>is_loaded_anywhere\<close> is
  "true iff a Mapped Library Record exists for this path".
\<close>

definition impl_isLibraryLoaded :: "string \<Rightarrow> nat \<Rightarrow> world \<Rightarrow> bool" where
  "impl_isLibraryLoaded path loader w =
     list_ex (\<lambda>bm. list_ex (\<lambda>nf. associated_library_path (snd nf) = path
                                  \<and> isOwnedBy (snd nf) (Some loader)) (snd bm))
       (factory_map_map w)"

definition impl_isLibraryLoadedByAnybody :: "string \<Rightarrow> world \<Rightarrow> bool" where
  "impl_isLibraryLoadedByAnybody path w = (path \<in> fst ` set (loaded_library_vector w))"

text \<open>
  Modelled from the spec, sections 4.2, 4.3 and 5: load calls \<open>enter_load(path, self)\<close>,
  the OS shim's \<open>map(path)\<close> and \<open>exit_load()\<close> "regardless of success; on map success,
  increment Mapped Library Record's open count (creating the record if new)". "Each
  library has a single handle regardless of how many Loaders hold it open", and "the
  same Factory may have multiple owning Loaders if two Loaders for the same path
  coexist": mapping a path that has a record runs no initialiser and makes the loader
  an owner of that library's factories.
\<close>

fun increment_open_count :: "string \<Rightarrow> (string \<times> nat) list \<Rightarrow> (string \<times> nat) list" where
  "increment_open_count path [] = [(path, 1)]"
| "increment_open_count path ((p, n) # libs) =
     (if p = path then (p, n + 1) # libs else (p, n) # increment_open_count path libs)"

definition share_factories :: "string \<Rightarrow> nat \<Rightarrow> world \<Rightarrow> world" where
  "share_factories path loader w =
     w\<lparr>factory_map_map :=
          map (\<lambda>bm. (fst bm,
                 map (\<lambda>nf. (fst nf,
                        if associated_library_path (snd nf) = path
                        then addOwningPluginLoader (Some loader) (snd nf) else snd nf))
                   (snd bm)))
            (factory_map_map w)\<rparr>"

definition exit_load :: "world \<Rightarrow> world" where
  "exit_load w = setCurrentlyActivePluginLoader None (setCurrentlyLoadingLibraryName [] w)"

definition impl_loadLibrary :: "string \<Rightarrow> nat \<Rightarrow> world \<Rightarrow> (exn + unit) \<times> world" where
  "impl_loadLibrary path loader w =
     (let w1 = emit (ImplLoadLibrary path loader) w;
          w2 = setCurrentlyActivePluginLoader (Some loader)
                 (setCurrentlyLoadingLibraryName path w1)
      in case (if impl_isLibraryLoadedByAnybody path w2
               then (Inr (), share_factories path loader w2)
               else SharedLibrary_load False path w2) of
           (Inl e, w3) \<Rightarrow> (Inl e, exit_load w3)
         | (Inr u, w3) \<Rightarrow>
             (Inr (), (exit_load w3)\<lparr>loaded_library_vector :=
                         increment_open_count path (loaded_library_vector w3)\<rparr>))"

text \<open>
  Modelled from the spec, section 4.2: \<open>purge_library(path)\<close> is to "erase every
  Factory whose contributing path equals path; remove the Mapped Library Record;
  release its handle via the OS Shim"; section 3, invariant 5: \<open>non_pure_opened\<close>
  "disables all unmapping".
\<close>

definition impl_unloadLibrary :: "string \<Rightarrow> nat \<Rightarrow> world \<Rightarrow> world" where
  "impl_unloadLibrary path loader w =
     (let w1 = emit (ImplUnloadLibrary path loader) w
      in if hasANonPurePluginLibraryBeenOpened w1 then w1
         else w1\<lparr>factory_map_map :=
                    map (\<lambda>bm. (fst bm,
                           filter (\<lambda>nf. associated_library_path (snd nf) \<noteq> path) (snd bm)))
                      (factory_map_map w1),
                  loaded_library_vector :=
                    filter (\<lambda>pn. fst pn \<noteq> path) (loaded_library_vector w1)\<rparr>)"

section \<open>PluginLoader (plugin_loader.hpp, plugin_loader.cpp)\<close>

text \<open>
  The fields of a \<^verbatim>\<open>PluginLoader\<close>; \<open>this_ptr\<close> is the address of the object, under
  which factories know it. The two counters are C++ \<^verbatim>\<open>int\<close>s: every write to them
  goes through \<open>int32\<close>.
\<close>

record PluginLoader =
  this_ptr :: nat
  ondemand_load_unload :: bool
  library_path :: string
  load_ref_count :: int
  plugin_ref_count :: int

definition getLibraryPath :: "PluginLoader \<Rightarrow> string" where
  "getLibraryPath L = library_path L"

definition isOnDemandLoadUnloadEnabled :: "PluginLoader \<Rightarrow> bool" where
  "isOnDemandLoadUnloadEnabled L = ondemand_load_unload L"

definition hasUnmanagedInstanceBeenCreated :: "world \<Rightarrow> bool" where
  "hasUnmanagedInstanceBeenCreated w = has_unmananged_instance_been_created w"

definition isLibraryLoaded :: "PluginLoader \<Rightarrow> world \<Rightarrow> bool" where
  "isLibraryLoaded L w = impl_isLibraryLoaded (getLibraryPath L) (this_ptr L) w"

definition isLibraryLoadedByAnyClassloader :: "PluginLoader \<Rightarrow> world \<Rightarrow> bool" where
  "isLibraryLoadedByAnyClassloader L w = impl_isLibraryLoadedByAnybody (getLibraryPath L) w"

definition loadLibrary :: "PluginLoader \<Rightarrow> world \<Rightarrow> (exn + unit) \<times> PluginLoader \<times> world" where
  "loadLibrary L w =
     (let L1 = L\<lparr>load_ref_count := int32 (load_ref_count L + 1)\<rparr>
      in case impl_loadLibrary (getLibraryPath L1) (this_ptr L1) w of
           (r, w1) \<Rightarrow> (r, L1, w1))"

text \<open>\<open>lock_plugin_ref_count\<close> only chooses whether a mutex is taken.\<close>

definition unloadLibraryInternal :: "bool \<Rightarrow> PluginLoader \<Rightarrow> world \<Rightarrow> int \<times> PluginLoader \<times> world" where
  "unloadLibraryInternal lock_plugin_ref_count L w =
     (if plugin_ref_count L > 0 then (load_ref_count L, L, logWarn w)
      else
        let L1 = L\<lparr>load_ref_count := int32 (load_ref_count L - 1)\<rparr>
        in if 0 = load_ref_count L1
           then (load_ref_count L1, L1, impl_unloadLibrary (getLibraryPath L1) (this_ptr L1) w)
           else if load_ref_count L1 < 0
           then (0, L1\<lparr>load_ref_count := 0\<rparr>, w)
           else (load_ref_count L1, L1, w))"

definition unloadLibrary :: "PluginLoader \<Rightarrow> world \<Rightarrow> int \<times> PluginLoader \<times> world" where
  "unloadLibrary L w = unloadLibraryInternal True L w"

text \<open>The constructor, for the object at address \<open>this\<close>.\<close>

definition PluginLoader_ctor :: "nat \<Rightarrow> string \<Rightarrow> bool \<Rightarrow> world \<Rightarrow> (exn + PluginLoader) \<times> world" where
  "PluginLoader_ctor this path ondemand w =
     (let L = \<lparr>this_ptr = this, ondemand_load_unload = ondemand, library_path = path,
               load_ref_count = 0, plugin_ref_count = 0\<rparr>;
          w1 = logDebug w
      in if \<not> isOnDemandLoadUnloadEnabled L
         then (case loadLibrary L w1 of
                 (Inl e, L1, w2) \<Rightarrow> (Inl e, w2)
               | (Inr u, L1, w2) \<Rightarrow> (Inr L1, w2))
         else (Inr L, w1))"

text \<open>The destructor; it yields the fields as they are when the object dies.\<close>

definition PluginLoader_dtor :: "PluginLoader \<Rightarrow> world \<Rightarrow> PluginLoader \<times> world" where
  "PluginLoader_dtor L w = (case unloadLibrary L (logDebug w) of (r, L1, w1) \<Rightarrow> (L1, w1))"

definition createRawInstance ::
  "string \<Rightarrow> string \<Rightarrow> bool \<Rightarrow> PluginLoader \<Rightarrow> world \<Rightarrow> (exn + obj) \<times> PluginLoader \<times> world" where
  "createRawInstance base derived_class_name managed L w =
     (let w1 = (if \<not> managed then w\<lparr>has_unmananged_instance_been_created := True\<rparr> else w);
          w2 = (if managed \<and> hasUnmanagedInstanceBeenCreated w1 \<and> isOnDemandLoadUnloadEnabled L
                then logInform w1 else w1)
      in case (if \<not> isLibraryLoaded L w2 then loadLibrary L w2 else (Inr (), L, w2)) of
           (Inl e, L3, w3) \<Rightarrow> (Inl e, L3, w3)
         | (Inr u, L3, w3) \<Rightarrow>
             (case createInstance base derived_class_name (Some (this_ptr L3)) w3 of
                (Inl e, w4) \<Rightarrow> (Inl e, L3, w4)
              | (Inr ob, w4) \<Rightarrow>
                  (Inr ob,
                   if managed then L3\<lparr>plugin_ref_count := int32 (plugin_ref_count L3 + 1)\<rparr>
                   else L3,
                   w4)))"

text \<open>
  \<^verbatim>\<open>createSharedInstance\<close>, \<^verbatim>\<open>createInstance\<close> and \<^verbatim>\<open>createUniqueInstance\<close> wrap the
  managed raw instance in a smart pointer whose deleter is \<^verbatim>\<open>onPluginDeletion\<close>.
\<close>

definition createSharedInstance ::
  "string \<Rightarrow> string \<Rightarrow> PluginLoader \<Rightarrow> world \<Rightarrow> (exn + obj) \<times> PluginLoader \<times> world" where
  "createSharedInstance base derived_class_name L w =
     createRawInstance base derived_class_name True L w"

definition createUnmanagedInstance ::
  "string \<Rightarrow> string \<Rightarrow> PluginLoader \<Rightarrow> world \<Rightarrow> (exn + obj) \<times> PluginLoader \<times> world" where
  "createUnmanagedInstance base derived_class_name L w =
     createRawInstance base derived_class_name False L w"

text \<open>
  \<^verbatim>\<open>onPluginDeletion(obj)\<close>; \<open>None\<close> for \<open>obj\<close> is the null pointer. The result \<open>None\<close>
  is the failed \<^verbatim>\<open>assert(plugin_ref_count_ >= 0)\<close>.
\<close>

definition onPluginDeletion :: "obj option \<Rightarrow> PluginLoader \<Rightarrow> world \<Rightarrow> (PluginLoader \<times> world) option" where
  "onPluginDeletion ob L w =
     (let w1 = logDebug w
      in case ob of
           None \<Rightarrow> Some (L, w1)
         | Some o1 \<Rightarrow>
             let L1 = L\<lparr>plugin_ref_count := int32 (plugin_ref_count L - 1)\<rparr>
             in if \<not> plugin_ref_count L1 \<ge> 0 then None
                else if 0 = plugin_ref_count L1 \<and> isOnDemandLoadUnloadEnabled L1
                then (if \<not> hasUnmanagedInstanceBeenCreated w1
                      then (case unloadLibraryInternal False L1 w1 of (r, L2, w2) \<Rightarrow> Some (L2, w2))
                      else Some (L1, logWarn w1))
                else Some (L1, w1))"

definition isClassAvailable :: "string \<Rightarrow> string \<Rightarrow> PluginLoader \<Rightarrow> world \<Rightarrow> bool" where
  "isClassAvailable base cname L w =
     (cname \<in> set (getAvailableClasses base (Some (this_ptr L)) w))"

section \<open>MultiLibraryPluginLoader (multi_library_plugin_loader.hpp and .cpp)\<close>

text \<open>
  \<open>active_plugin_loaders\<close> is the \<^verbatim>\<open>std::map<LibraryPath, PluginLoader *>\<close>; each
  loader object belongs to the map alone (created by \<^verbatim>\<open>new\<close> in \<^verbatim>\<open>loadLibrary\<close>,
  deleted in \<^verbatim>\<open>unloadLibrary\<close>), so the map holds the object itself.
\<close>

record MultiLibraryPluginLoader =
  enable_ondemand_loadunload :: bool
  active_plugin_loaders :: "(string, PluginLoader) cmap"

definition MultiLibraryPluginLoader_ctor :: "bool \<Rightarrow> MultiLibraryPluginLoader" where
  "MultiLibraryPluginLoader_ctor enable =
     \<lparr>enable_ondemand_loadunload = enable, active_plugin_loaders = []\<rparr>"

definition getRegisteredLibraries :: "MultiLibraryPluginLoader \<Rightarrow> string list" where
  "getRegisteredLibraries M = map fst (active_plugin_loaders M)"

definition getPluginLoaderForLibrary :: "string \<Rightarrow> MultiLibraryPluginLoader \<Rightarrow> PluginLoader option" where
  "getPluginLoaderForLibrary path M = cmap_find path (active_plugin_loaders M)"


definition isLibraryAvailable :: "string \<Rightarrow> MultiLibraryPluginLoader \<Rightarrow> bool" where
  "isLibraryAvailable path M = (getPluginLoaderForLibrary path M \<noteq> None)"

text \<open>
  \<^verbatim>\<open>loadLibrary(library_path)\<close>; \<open>addr\<close> is the address that \<^verbatim>\<open>new\<close> gives the loader.
  The constructor runs before the map is written, so when it throws the map is as it
  was.
\<close>

definition MultiLibraryPluginLoader_loadLibrary ::
  "nat \<Rightarrow> string \<Rightarrow> MultiLibraryPluginLoader \<Rightarrow> world \<Rightarrow> (exn + unit) \<times> MultiLibraryPluginLoader \<times> world" where
  "MultiLibraryPluginLoader_loadLibrary addr path M w =
     (if \<not> isLibraryAvailable path M
      then (case PluginLoader_ctor addr path (enable_ondemand_loadunload M) w of
              (Inl e, w1) \<Rightarrow> (Inl e, M, w1)
            | (Inr L, w1) \<Rightarrow>
                (Inr (), M\<lparr>active_plugin_loaders := cmap_assign path L (active_plugin_loaders M)\<rparr>, w1))
      else (Inr (), M, w))"

definition MultiLibraryPluginLoader_unloadLibrary ::
  "string \<Rightarrow> MultiLibraryPluginLoader \<Rightarrow> world \<Rightarrow> int \<times> MultiLibraryPluginLoader \<times> world" where
  "MultiLibraryPluginLoader_unloadLibrary path M w =
     (case cmap_find path (active_plugin_loaders M) of
        None \<Rightarrow> (0, M, w)
      | Some loader \<Rightarrow>
          (case unloadLibrary loader w of
             (remaining_unloads, L1, w1) \<Rightarrow>
               if 0 = remaining_unloads
               then (case PluginLoader_dtor L1 w1 of
                       (L2, w2) \<Rightarrow>
                         (remaining_unloads,
                          M\<lparr>active_plugin_loaders := cmap_erase path (active_plugin_loaders M)\<rparr>,
                          w2))
               else (remaining_unloads,
                     M\<lparr>active_plugin_loaders := cmap_assign path L1 (active_plugin_loaders M)\<rparr>,
                     w1)))"

text \<open>
  The loop of \<^verbatim>\<open>getPluginLoaderForClass\<close> over the vector of
  \<^verbatim>\<open>getAllAvailablePluginLoaders\<close>, which lists the map in its iteration order. The
  loaders are changed in place (\<^verbatim>\<open>loadLibrary\<close> counts), so the loop runs over the
  map's entries and gives them back; the loader found is returned with its key.
  \<open>Inr None\<close> is the result \<^verbatim>\<open>nullptr\<close>.
\<close>

fun getPluginLoaderForClass_loop ::
  "string \<Rightarrow> string \<Rightarrow> (string, PluginLoader) cmap \<Rightarrow> world
     \<Rightarrow> (exn + (string \<times> PluginLoader) option) \<times> (string, PluginLoader) cmap \<times> world" where
  "getPluginLoaderForClass_loop base cname [] w = (Inr None, [], w)"
| "getPluginLoaderForClass_loop base cname ((p, L) # rest) w =
     (case (if \<not> isLibraryLoaded L w then loadLibrary L w else (Inr (), L, w)) of
        (Inl e, L1, w1) \<Rightarrow> (Inl e, (p, L1) # rest, w1)
      | (Inr u, L1, w1) \<Rightarrow>
          if isClassAvailable base cname L1 w1
          then (Inr (Some (p, L1)), (p, L1) # rest, w1)
          else (case getPluginLoaderForClass_loop base cname rest w1 of
                  (r, rest1, w2) \<Rightarrow> (r, (p, L1) # rest1, w2)))"

definition getPluginLoaderForClass ::
  "string \<Rightarrow> string \<Rightarrow> MultiLibraryPluginLoader \<Rightarrow> world
     \<Rightarrow> (exn + (string \<times> PluginLoader) option) \<times> MultiLibraryPluginLoader \<times> world" where
  "getPluginLoaderForClass base cname M w =
     (case getPluginLoaderForClass_loop base cname (active_plugin_loaders M) w of
        (r, loaders, w1) \<Rightarrow> (r, M\<lparr>active_plugin_loaders := loaders\<rparr>, w1))"

text \<open>
  \<^verbatim>\<open>createSharedInstance<Base>(class_name)\<close>, the overload without a library path
  (\<^verbatim>\<open>createInstance\<close> and \<^verbatim>\<open>createUniqueInstance\<close> differ in the smart pointer only).
\<close>

definition MultiLibraryPluginLoader_createSharedInstance ::
  "string \<Rightarrow> string \<Rightarrow> MultiLibraryPluginLoader \<Rightarrow> world
     \<Rightarrow> (exn + obj) \<times> MultiLibraryPluginLoader \<times> world" where
  "MultiLibraryPluginLoader_createSharedInstance base cname M w =
     (case getPluginLoaderForClass base cname M (logDebug w) of
        (Inl e, M1, w1) \<Rightarrow> (Inl e, M1, w1)
      | (Inr None, M1, w1) \<Rightarrow>
          (Inl (CreateClassException
             (''MultiLibraryPluginLoader: Could not create object of class type '' @ cname @
              '' as no factory exists for it. Make sure that the library exists and '' @
              ''was explicitly loaded through MultiLibraryPluginLoader::loadLibrary()'')),
           M1, w1)
      | (Inr (Some (p, loader)), M1, w1) \<Rightarrow>
          (case createSharedInstance base cname loader w1 of
             (r, L1, w2) \<Rightarrow>
               (r, M1\<lparr>active_plugin_loaders := cmap_assign p L1 (active_plugin_loaders M1)\<rparr>, w2)))"

text \<open>
  \<^verbatim>\<open>createSharedInstance<Base>(class_name, library_path)\<close>, the overload that names
  the library.
\<close>

definition MultiLibraryPluginLoader_createSharedInstance_in ::
  "string \<Rightarrow> string \<Rightarrow> string \<Rightarrow> MultiLibraryPluginLoader \<Rightarrow> world
     \<Rightarrow> (exn + obj) \<times> MultiLibraryPluginLoader \<times> world" where
  "MultiLibraryPluginLoader_createSharedInstance_in base cname path M w =
     (case getPluginLoaderForLibrary path M of
        None \<Rightarrow>
          (Inl (NoPluginLoaderExistsException
             (''Could not create instance as there is no PluginLoader in '' @
              ''MultiLibraryPluginLoader bound to library '' @ path @
              '' Ensure you called MultiLibraryPluginLoader::loadLibrary()'')),
           M, w)
      | Some loader \<Rightarrow>
          (case createSharedInstance base cname loader w of
             (r, L1, w1) \<Rightarrow>
               (r, M\<lparr>active_plugin_loaders := cmap_assign path L1 (active_plugin_loaders M)\<rparr>, w1)))"

text \<open>
  \<^verbatim>\<open>shutdownAllPluginLoaders()\<close>: \<^verbatim>\<open>unloadLibrary(library_path)\<close> for each path that
  \<^verbatim>\<open>getRegisteredLibraries()\<close> lists when the loop starts. The destructor calls it.
\<close>

fun shutdownAllPluginLoaders_loop ::
  "string list \<Rightarrow> MultiLibraryPluginLoader \<Rightarrow> world \<Rightarrow> MultiLibraryPluginLoader \<times> world" where
  "shutdownAllPluginLoaders_loop [] M w = (M, w)"
| "shutdownAllPluginLoaders_loop (lib_path # paths) M w =
     (case MultiLibraryPluginLoader_unloadLibrary lib_path M w of
        (n, M1, w1) \<Rightarrow> shutdownAllPluginLoaders_loop paths M1 w1)"

definition shutdownAllPluginLoaders ::
  "MultiLibraryPluginLoader \<Rightarrow> world \<Rightarrow> MultiLibraryPluginLoader \<times> world" where
  "shutdownAllPluginLoaders M w = shutdownAllPluginLoaders_loop (getRegisteredLibraries M) M w"

definition MultiLibraryPluginLoader_dtor ::
  "MultiLibraryPluginLoader \<Rightarrow> world \<Rightarrow> MultiLibraryPluginLoader \<times> world" where
  "MultiLibraryPluginLoader_dtor M w = shutdownAllPluginLoaders M w"

section \<open>Sequences of operations\<close>

text \<open>
  One step of the process: any operation of the registry, of a loader or of a
  multi-library loader, on any arguments, takes the process-wide state from \<open>w\<close> to
  \<open>w'\<close>.
\<close>

inductive op_step :: "world \<Rightarrow> world \<Rightarrow> bool" where
  step_registerPlugin: "op_step w (registerPlugin derived base cname bname w)"
| step_createInstance: "createInstance base cname loader w = (r, w') \<Longrightarrow> op_step w w'"
| step_impl_loadLibrary: "impl_loadLibrary path l w = (ru, w') \<Longrightarrow> op_step w w'"
| step_impl_unloadLibrary: "op_step w (impl_unloadLibrary path l w)"
| step_ctor: "PluginLoader_ctor this path ondemand w = (rl, w') \<Longrightarrow> op_step w w'"
| step_dtor: "PluginLoader_dtor L w = (L', w') \<Longrightarrow> op_step w w'"
| step_loadLibrary: "loadLibrary L w = (ru, L', w') \<Longrightarrow> op_step w w'"
| step_unloadLibrary: "unloadLibraryInternal lk L w = (n, L', w') \<Longrightarrow> op_step w w'"
| step_createRawInstance:
    "createRawInstance base cname managed L w = (r, L', w') \<Longrightarrow> op_step w w'"
| step_onPluginDeletion: "onPluginDeletion ob L w = Some (L', w') \<Longrightarrow> op_step w w'"
| step_multi_loadLibrary:
    "MultiLibraryPluginLoader_loadLibrary addr path M w = (ru, M', w') \<Longrightarrow> op_step w w'"
| step_multi_unloadLibrary:
    "MultiLibraryPluginLoader_unloadLibrary path M w = (n, M', w') \<Longrightarrow> op_step w w'"
| step_multi_getPluginLoaderForClass:
    "getPluginLoaderForClass base cname M w = (rp, M', w') \<Longrightarrow> op_step w w'"
| step_multi_create:
    "MultiLibraryPluginLoader_createSharedInstance base cname M w = (r, M', w') \<Longrightarrow> op_step w w'"
| step_multi_create_in:
    "MultiLibraryPluginLoader_createSharedInstance_in base cname path M w = (r, M', w')
       \<Longrightarrow> op_step w w'"
| step_multi_shutdown: "shutdownAllPluginLoaders M w = (M', w') \<Longrightarrow> op_step w w'"

text \<open>The loader's load and unload, called several times in a row.\<close>

fun loadLibrary_times :: "nat \<Rightarrow> PluginLoader \<Rightarrow> world \<Rightarrow> (PluginLoader \<times> world) option" where
  "loadLibrary_times 0 L w = Some (L, w)"
| "loadLibrary_times (Suc n) L w =
     (case loadLibrary L w of
        (Inl e, L1, w1) \<Rightarrow> None
      | (Inr u, L1, w1) \<Rightarrow> loadLibrary_times n L1 w1)"

fun unloadLibrary_times :: "nat \<Rightarrow> PluginLoader \<Rightarrow> world \<Rightarrow> int list \<times> PluginLoader \<times> world" where
  "unloadLibrary_times 0 L w = ([], L, w)"
| "unloadLibrary_times (Suc n) L w =
     (case unloadLibrary L w of
        (r, L1, w1) \<Rightarrow>
          (case unloadLibrary_times n L1 w1 of (rs, L2, w2) \<Rightarrow> (r # rs, L2, w2)))"

text \<open>How often the loader at address \<open>l\<close> has asked the registry to unload \<open>path\<close>.\<close>

definition unbind_calls :: "string \<Rightarrow> nat \<Rightarrow> world \<Rightarrow> nat" where
  "unbind_calls path l w = length (filter (\<lambda>e. e = ImplUnloadLibrary path l) (trace w))"

text \<open>Whether a string occurs in another, as a run of consecutive characters.\<close>

fun contains :: "string \<Rightarrow> string \<Rightarrow> bool" where
  "contains [] sub = (sub = [])"
| "contains (c # s) sub = (take (length sub) (c # s) = sub \<or> contains s sub)"

section \<open>Scenarios\<close>

text \<open>The state of a process in which nothing has been registered or loaded yet.\<close>

definition initial_world :: "(string \<Rightarrow> dl_result) \<Rightarrow> world" where
  "initial_world dl =
     \<lparr>factory_map_map = [], loaded_library_vector = [], currently_loading_library_name = [],
      currently_active_plugin_loader = None, non_pure_plugin_library_opened = False,
      has_unmananged_instance_been_created = False, trace = [], dlopen = dl\<rparr>"

text \<open>
  The libraries on disk: the five animals of \<^verbatim>\<open>example/plugins.h\<close> in
  \<^verbatim>\<open>./libPlugins.so\<close> (the library that \<^verbatim>\<open>example/utest.cpp\<close> opens), and two
  libraries that each bring one class for a base \<^verbatim>\<open>B\<close>. \<^verbatim>\<open>./libBroken.so\<close> is on
  disk too, but the library \<^verbatim>\<open>libmissing.so\<close> that it is linked against is not. The
  empty path stands for the running program, which is mapped already. No file is
  found under any other path.
\<close>

definition disk :: "string \<Rightarrow> dl_result" where
  "disk path =
     (if path = ''./libPlugins.so''
      then DlOk [(''Dog'', ''Base'', ''Dog'', ''Base''), (''Cat'', ''Base'', ''Cat'', ''Base''),
                 (''Duck'', ''Base'', ''Duck'', ''Base''), (''Cow'', ''Base'', ''Cow'', ''Base''),
                 (''Sheep'', ''Base'', ''Sheep'', ''Base'')]
      else if path = ''libA.so'' then DlOk [(''AX'', ''B'', ''X'', ''B'')]
      else if path = ''libB.so'' then DlOk [(''BZ'', ''B'', ''Z'', ''B'')]
      else if path = ''./libBroken.so'' then DlFail (MissingDependency ''libmissing.so'')
      else if path = [] then DlOk []
      else DlFail NoSuchFile)"

text \<open>
  \<^verbatim>\<open>plugin_loader::PluginLoader loader("./libPlugins.so", false)\<close>, as in
  \<^verbatim>\<open>example/utest.cpp\<close>, with the loader at address 1.
\<close>

definition utest_loader :: PluginLoader where
  "utest_loader =
     \<lparr>this_ptr = 1, ondemand_load_unload = False, library_path = ''./libPlugins.so'',
      load_ref_count = 1, plugin_ref_count = 0\<rparr>"

definition utest_world :: world where
  "utest_world = snd (PluginLoader_ctor 1 ''./libPlugins.so'' False (initial_world disk))"

text \<open>A loader in on-demand mode for the same library, as its constructor leaves it.\<close>

definition lazy_loader :: PluginLoader where
  "lazy_loader =
     \<lparr>this_ptr = 1, ondemand_load_unload = True, library_path = ''./libPlugins.so'',
      load_ref_count = 0, plugin_ref_count = 0\<rparr>"

text \<open>
  A process whose executable is linked against a library that registers a class \<^verbatim>\<open>Y\<close>
  for base \<^verbatim>\<open>B\<close>: the registration runs before \<^verbatim>\<open>main\<close>, with no loader active. The
  process then makes a multi-library loader, loads \<^verbatim>\<open>libB.so\<close>, and after it
  \<^verbatim>\<open>libA.so\<close>.
\<close>

definition host_linked_world :: world where
  "host_linked_world = registerPlugin ''HostY'' ''B'' ''Y'' ''B'' (initial_world disk)"

definition multi_after_libB :: "(exn + unit) \<times> MultiLibraryPluginLoader \<times> world" where
  "multi_after_libB =
     MultiLibraryPluginLoader_loadLibrary 1 ''libB.so'' (MultiLibraryPluginLoader_ctor False)
       host_linked_world"

definition multi_after_libA :: "(exn + unit) \<times> MultiLibraryPluginLoader \<times> world" where
  "multi_after_libA =
     MultiLibraryPluginLoader_loadLibrary 2 ''libA.so'' (fst (snd multi_after_libB))
       (snd (snd multi_after_libB))"

definition two_libraries :: MultiLibraryPluginLoader where
  "two_libraries = fst (snd multi_after_libA)"

definition two_libraries_world :: world where
  "two_libraries_world = snd (snd multi_after_libA)"

text \<open>The same lazy loader after three, and after two, calls of \<^verbatim>\<open>loadLibrary()\<close>.\<close>

definition thrice_loaded :: "PluginLoader \<times> world" where
  "thrice_loaded =
     (case loadLibrary_times 3 lazy_loader (initial_world disk) of
        Some Lw \<Rightarrow> Lw | None \<Rightarrow> (lazy_loader, initial_world disk))"

definition twice_loaded :: "PluginLoader \<times> world" where
  "twice_loaded =
     (case loadLibrary_times 2 lazy_loader (initial_world disk) of
        Some Lw \<Rightarrow> Lw | None \<Rightarrow> (lazy_loader, initial_world disk))"

text \<open>
  The same lazy loader when the library is not installed yet: its first
  \<^verbatim>\<open>loadLibrary()\<close> throws; the library is then installed, and the second call
  succeeds.
\<close>

definition disk_before_install :: "string \<Rightarrow> dl_result" where
  "disk_before_install path =
     (if path = ''./libPlugins.so'' then DlFail NoSuchFile else disk path)"

definition failed_load :: "(exn + unit) \<times> PluginLoader \<times> world" where
  "failed_load = loadLibrary lazy_loader (initial_world disk_before_install)"

definition load_after_install :: "(exn + unit) \<times> PluginLoader \<times> world" where
  "load_after_install =
     loadLibrary (fst (snd failed_load)) ((snd (snd failed_load))\<lparr>dlopen := disk\<rparr>)"

text \<open>
  The lazy loader is loaded once by hand, makes one shared instance, and the instance
  is released.
\<close>

definition release_on_demand :: "(PluginLoader \<times> world) option" where
  "release_on_demand =
     (case loadLibrary lazy_loader (initial_world disk) of
        (r, L1, w1) \<Rightarrow>
          (case createSharedInstance ''Base'' ''Dog'' L1 w1 of
             (Inl e, L2, w2) \<Rightarrow> None
           | (Inr ob, L2, w2) \<Rightarrow> onPluginDeletion (Some ob) L2 w2))"






section \<open>Auxiliary notions\<close>

text \<open>
  A class name is usable by a loader when the factory registered under it is owned by
  the loader or by nobody.
\<close>

definition usable :: "string \<Rightarrow> string \<Rightarrow> loader_ptr \<Rightarrow> world \<Rightarrow> bool" where
  "usable base cname loader w =
     (\<exists>f. cmap_find cname (getFactoryMapForBaseClass base w) = Some f
          \<and> (isOwnedBy f loader \<or> isOwnedBy f None))"


text \<open>
  What a lookup may have done to the loaders it has visited: each is as it was, or has
  counted one more load.
\<close>

definition visited :: "(string, PluginLoader) cmap \<Rightarrow> (string, PluginLoader) cmap \<Rightarrow> bool" where
  "visited before after =
     list_all2 (\<lambda>x y. fst y = fst x
                  \<and> (snd y = snd x
                     \<or> snd y = (snd x)\<lparr>load_ref_count := int32 (load_ref_count (snd x) + 1)\<rparr>))
       before after"

text \<open>
  The registry's maps are \<^verbatim>\<open>std::map\<close>s: the outer map and each factory map have
  their keys in strictly ascending order.
\<close>

definition registry_wf :: "world \<Rightarrow> bool" where
  "registry_wf w =
     (cmap_wf (factory_map_map w) \<and> list_all (\<lambda>bm. cmap_wf (snd bm)) (factory_map_map w))"

text \<open>
  The state in which \<^verbatim>\<open>createRawInstance\<close> reaches its test of \<^verbatim>\<open>isLibraryLoaded()\<close>.
\<close>

definition createRawInstance_entry :: "bool \<Rightarrow> PluginLoader \<Rightarrow> world \<Rightarrow> world" where
  "createRawInstance_entry managed L w =
     (if managed \<and> hasUnmanagedInstanceBeenCreated
           (if \<not> managed then w\<lparr>has_unmananged_instance_been_created := True\<rparr> else w)
         \<and> isOnDemandLoadUnloadEnabled L
      then logInform (if \<not> managed then w\<lparr>has_unmananged_instance_been_created := True\<rparr> else w)
      else (if \<not> managed then w\<lparr>has_unmananged_instance_been_created := True\<rparr> else w))"

section \<open>The scenarios are what the constructors give\<close>

lemma utest_loader_constructed:
  "fst (PluginLoader_ctor 1 ''./libPlugins.so'' False (initial_world disk)) = Inr utest_loader"
  by code_simp

lemma utest_available_classes:
  "getAvailableClasses ''Base'' (Some 1) utest_world = [''Cat'', ''Cow'', ''Dog'', ''Duck'', ''Sheep'']"
  by code_simp

lemma lazy_loader_constructed:
  "PluginLoader_ctor 1 ''./libPlugins.so'' True w = (Inr lazy_loader, logDebug w)"
  by (simp add: PluginLoader_ctor_def isOnDemandLoadUnloadEnabled_def lazy_loader_def)

lemma two_libraries_loaded:
  "fst multi_after_libB = Inr () \<and> fst multi_after_libA = Inr ()"
  by code_simp

section \<open>Maps and the factory registry\<close>

lemma cmap_find_assign:
  "cmap_find k' (cmap_assign k v m) = (if k' = k then Some v else cmap_find k' m)"
  by (induction m) auto

lemma getFactoryMap_setFactoryMap:
  "getFactoryMapForBaseClass b (setFactoryMapForBaseClass base m w) =
     (if b = base then m else getFactoryMapForBaseClass b w)"
  by (simp add: getFactoryMapForBaseClass_def setFactoryMapForBaseClass_def cmap_find_assign)

lemma getFactoryMap_emit [simp]:
  "getFactoryMapForBaseClass b (emit e w) = getFactoryMapForBaseClass b w"
  by (simp add: getFactoryMapForBaseClass_def emit_def)


lemma cmap_wf_find: "cmap_wf m \<Longrightarrow> (k, v) \<in> set m \<Longrightarrow> cmap_find k m = Some v"
  by (induction m) (auto simp: cmap_wf_def)

lemma getAvailableClasses_loop_set:
  "getAvailableClasses_loop loader m cs ns = (cs', ns')
     \<Longrightarrow> set cs' \<union> set ns' =
           set cs \<union> set ns
             \<union> fst ` {it \<in> set m. isOwnedBy (snd it) loader \<or> isOwnedBy (snd it) None}"
proof (induction m arbitrary: cs ns)
  case Nil
  then show ?case by simp
next
  case (Cons it m)
  let ?A = "fst ` {it \<in> set m. isOwnedBy (snd it) loader \<or> isOwnedBy (snd it) None}"
  let ?B = "fst ` {i \<in> set (it # m). isOwnedBy (snd i) loader \<or> isOwnedBy (snd i) None}"
  have B: "?B = (if isOwnedBy (snd it) loader \<or> isOwnedBy (snd it) None then {fst it} else {}) \<union> ?A"
    by auto
  show ?case
  proof (cases "isOwnedBy (snd it) loader")
    case True
    with Cons.prems have "getAvailableClasses_loop loader m (cs @ [fst it]) ns = (cs', ns')"
      by simp
    from Cons.IH [OF this] have "set cs' \<union> set ns' = set (cs @ [fst it]) \<union> set ns \<union> ?A" .
    with True show ?thesis unfolding B by auto
  next
    case False
    show ?thesis
    proof (cases "isOwnedBy (snd it) None")
      case True
      with False Cons.prems have "getAvailableClasses_loop loader m cs (ns @ [fst it]) = (cs', ns')"
        by simp
      from Cons.IH [OF this] have "set cs' \<union> set ns' = set cs \<union> set (ns @ [fst it]) \<union> ?A" .
      with True show ?thesis unfolding B by auto
    next
      case no: False
      with False Cons.prems have "getAvailableClasses_loop loader m cs ns = (cs', ns')"
        by simp
      from Cons.IH [OF this] have "set cs' \<union> set ns' = set cs \<union> set ns \<union> ?A" .
      with False no show ?thesis unfolding B by auto
    qed
  qed
qed

lemma set_getAvailableClasses:
  "set (getAvailableClasses base loader w) =
     fst ` {it \<in> set (getFactoryMapForBaseClass base w).
              isOwnedBy (snd it) loader \<or> isOwnedBy (snd it) None}"
proof -
  obtain cs ns where l: "getAvailableClasses_loop loader (getFactoryMapForBaseClass base w) [] [] = (cs, ns)"
    by (metis surj_pair)
  from getAvailableClasses_loop_set [OF l] l show ?thesis
    by (simp add: getAvailableClasses_def)
qed

lemma available_usable:
  assumes "cmap_wf (getFactoryMapForBaseClass base w)"
      and "cname \<in> set (getAvailableClasses base loader w)"
  shows "\<exists>f. cmap_find cname (getFactoryMapForBaseClass base w) = Some f
          \<and> (isOwnedBy f loader \<or> isOwnedBy f None)"
proof -
  from assms(2) obtain it where "it \<in> set (getFactoryMapForBaseClass base w)"
      and "fst it = cname" and own: "isOwnedBy (snd it) loader \<or> isOwnedBy (snd it) None"
    by (auto simp: set_getAvailableClasses)
  then have "(cname, snd it) \<in> set (getFactoryMapForBaseClass base w)" by auto
  from cmap_wf_find [OF assms(1) this] own show ?thesis by blast
qed


lemma createInstance_usable:
  assumes "cmap_find cname (getFactoryMapForBaseClass base w) = Some f"
      and "isOwnedBy f loader \<or> isOwnedBy f None"
  shows "\<exists>w'. createInstance base cname loader w = (Inr (create f), w')"
  using assms by (auto simp: createInstance_def Let_def)

section \<open>Loading keeps usable classes usable\<close>

lemma factory_registerPlugin:
  "cmap_find cname (getFactoryMapForBaseClass base (registerPlugin d b c bn w)) =
     (if base = b \<and> cname = c
      then Some (setAssociatedLibraryPath (getCurrentlyLoadingLibraryName w)
                   (addOwningPluginLoader (getCurrentlyActivePluginLoader w) (MetaObject d c bn)))
      else cmap_find cname (getFactoryMapForBaseClass base w))"
  by (auto simp: registerPlugin_def Let_def getFactoryMap_setFactoryMap cmap_find_assign
        getCurrentlyActivePluginLoader_def getCurrentlyLoadingLibraryName_def
        set_hasANonPurePluginLibraryBeenOpened_def emit_def getFactoryMapForBaseClass_def
        setFactoryMapForBaseClass_def)

lemma active_registerPlugin [simp]:
  "currently_active_plugin_loader (registerPlugin d b c bn w) = currently_active_plugin_loader w"
  by (simp add: registerPlugin_def Let_def set_hasANonPurePluginLibraryBeenOpened_def emit_def
        setFactoryMapForBaseClass_def)

lemma usable_registerPlugin:
  assumes "currently_active_plugin_loader w = Some l"
      and "usable base cname (Some l) w"
  shows "usable base cname (Some l) (registerPlugin d b c bn w)"
  using assms
  by (auto simp: usable_def factory_registerPlugin getCurrentlyActivePluginLoader_def
        setAssociatedLibraryPath_def MetaObject_def)

lemma usable_run_static_initializers:
  "currently_active_plugin_loader w = Some l \<Longrightarrow> usable base cname (Some l) w
     \<Longrightarrow> usable base cname (Some l) (run_static_initializers regs w)"
  by (induction regs w rule: run_static_initializers.induct)
     (simp_all add: usable_registerPlugin)

lemma cmap_find_map_values:
  "cmap_find k (map (\<lambda>kv. (fst kv, h (snd kv))) m) = map_option h (cmap_find k m)"
  by (induction m) auto

lemma factory_share_factories:
  "cmap_find cname (getFactoryMapForBaseClass base (share_factories path l w)) =
     map_option (\<lambda>f. if associated_library_path f = path
                     then addOwningPluginLoader (Some l) f else f)
       (cmap_find cname (getFactoryMapForBaseClass base w))"
proof -
  let ?g = "\<lambda>f. if associated_library_path f = path then addOwningPluginLoader (Some l) f else f"
  let ?h = "map (\<lambda>nf. (fst nf, ?g (snd nf)))"
  have "getFactoryMapForBaseClass base (share_factories path l w) =
          ?h (getFactoryMapForBaseClass base w)"
    unfolding getFactoryMapForBaseClass_def share_factories_def
    by (simp add: cmap_find_map_values [where h = ?h] split: option.splits)
  then show ?thesis by (simp add: cmap_find_map_values [where h = ?g])
qed

lemma usable_share_factories:
  assumes "usable base cname (Some l) w"
  shows "usable base cname (Some l) (share_factories path l w)"
proof -
  from assms obtain f where f: "cmap_find cname (getFactoryMapForBaseClass base w) = Some f"
      and own: "isOwnedBy f (Some l) \<or> isOwnedBy f None"
    by (auto simp: usable_def)
  let ?f' = "if associated_library_path f = path then addOwningPluginLoader (Some l) f else f"
  have "cmap_find cname (getFactoryMapForBaseClass base (share_factories path l w)) = Some ?f'"
    by (simp add: factory_share_factories f)
  moreover have "isOwnedBy ?f' (Some l) \<or> isOwnedBy ?f' None"
    using own by auto
  ultimately show ?thesis unfolding usable_def by blast
qed

lemma usable_cong:
  "factory_map_map w' = factory_map_map w \<Longrightarrow> usable base cname loader w' = usable base cname loader w"
  by (simp add: usable_def getFactoryMapForBaseClass_def)

lemma usable_impl_loadLibrary:
  assumes "impl_loadLibrary path l w = (r, w')" and "usable base cname (Some l) w"
  shows "usable base cname (Some l) w'"
proof -
  define w2 where "w2 = setCurrentlyActivePluginLoader (Some l)
                 (setCurrentlyLoadingLibraryName path (emit (ImplLoadLibrary path l) w))"
  have a2: "currently_active_plugin_loader w2 = Some l"
    by (simp add: w2_def setCurrentlyActivePluginLoader_def)
  have u2: "usable base cname (Some l) w2"
    using assms(2)
    by (simp add: w2_def usable_def getFactoryMapForBaseClass_def emit_def
          setCurrentlyActivePluginLoader_def setCurrentlyLoadingLibraryName_def)
  obtain r3 w3 where mid: "(if impl_isLibraryLoadedByAnybody path w2
               then (Inr (), share_factories path l w2)
               else SharedLibrary_load False path w2) = (r3, w3)"
    by (metis surj_pair)
  have u3: "usable base cname (Some l) w3"
    using mid u2 a2
    by (auto simp: usable_share_factories SharedLibrary_load_def usable_run_static_initializers
          split: if_splits dl_result.splits)
  have unf: "impl_loadLibrary path l w =
      (case (if impl_isLibraryLoadedByAnybody path w2
               then (Inr (), share_factories path l w2)
               else SharedLibrary_load False path w2) of
           (Inl e, w3) \<Rightarrow> (Inl e, exit_load w3)
         | (Inr u, w3) \<Rightarrow>
             (Inr (), (exit_load w3)\<lparr>loaded_library_vector :=
                         increment_open_count path (loaded_library_vector w3)\<rparr>))"
    by (simp add: impl_loadLibrary_def Let_def w2_def)
  have fm: "factory_map_map w' = factory_map_map w3"
    using assms(1) mid unfolding unf
    by (cases r3)
       (auto simp: exit_load_def
          setCurrentlyActivePluginLoader_def setCurrentlyLoadingLibraryName_def)
  from usable_cong [OF fm] u3 show ?thesis by simp
qed

lemma usable_loadLibrary:
  "loadLibrary L w = (r, L', w') \<Longrightarrow> usable base cname (Some (this_ptr L)) w
     \<Longrightarrow> usable base cname (Some (this_ptr L)) w'"
  by (auto simp: loadLibrary_def Let_def split: prod.splits dest: usable_impl_loadLibrary)

lemma int32_id: "- 2147483648 \<le> x \<Longrightarrow> x \<le> 2147483647 \<Longrightarrow> int32 x = x"
  by (simp add: int32_def)

lemma loadLibrary_loader:
  "loadLibrary L w = (r, L', w')
     \<Longrightarrow> L' = L\<lparr>load_ref_count := int32 (load_ref_count L + 1)\<rparr>"
  by (auto simp: loadLibrary_def Let_def split: prod.splits)

lemma loadLibrary_wraps:
  "load_ref_count L = 2147483647
     \<Longrightarrow> load_ref_count (fst (snd (loadLibrary L w))) = - 2147483648"
  using loadLibrary_loader [of L w "fst (loadLibrary L w)" "fst (snd (loadLibrary L w))"
                               "snd (snd (loadLibrary L w))"]
  by (simp add: int32_def)

lemma loadLibrary_times_loader:
  "loadLibrary_times n L w = Some (L', w') \<Longrightarrow> 0 \<le> load_ref_count L
     \<Longrightarrow> load_ref_count L + int n \<le> 2147483647
     \<Longrightarrow> L' = L\<lparr>load_ref_count := load_ref_count L + int n\<rparr>"
proof (induction n arbitrary: L w)
  case 0
  then show ?case by simp
next
  case (Suc n)
  obtain r L1 w1 where step: "loadLibrary L w = (r, L1, w1)"
    by (cases "loadLibrary L w") auto
  with Suc.prems obtain u where "r = Inr u" and rest: "loadLibrary_times n L1 w1 = Some (L', w')"
    by (cases r) auto
  have "int32 (load_ref_count L + 1) = load_ref_count L + 1"
    using Suc.prems(2,3) by (intro int32_id) simp_all
  with loadLibrary_loader [OF step]
  have L1: "L1 = L\<lparr>load_ref_count := load_ref_count L + 1\<rparr>" by simp
  have "0 \<le> load_ref_count L1" and "load_ref_count L1 + int n \<le> 2147483647"
    using L1 Suc.prems(2,3) by simp_all
  from Suc.IH [OF rest this] L1 show ?case by simp
qed

lemma loadLibrary_exn:
  "loadLibrary L w = (Inl e, L', w') \<Longrightarrow> \<exists>m. e = LibraryLoadException m"
  by (auto simp: loadLibrary_def impl_loadLibrary_def Let_def SharedLibrary_load_def
        split: prod.splits sum.splits if_splits dl_result.splits)

lemma createRawInstance_unfold:
  "createRawInstance base cname managed L w =
     (case (if \<not> isLibraryLoaded L (createRawInstance_entry managed L w)
            then loadLibrary L (createRawInstance_entry managed L w)
            else (Inr (), L, createRawInstance_entry managed L w)) of
           (Inl e, L3, w3) \<Rightarrow> (Inl e, L3, w3)
         | (Inr u, L3, w3) \<Rightarrow>
             (case createInstance base cname (Some (this_ptr L3)) w3 of
                (Inl e, w4) \<Rightarrow> (Inl e, L3, w4)
              | (Inr ob, w4) \<Rightarrow>
                  (Inr ob,
                   if managed then L3\<lparr>plugin_ref_count := int32 (plugin_ref_count L3 + 1)\<rparr>
                   else L3,
                   w4)))"
  by (simp add: createRawInstance_def Let_def createRawInstance_entry_def)

lemma factories_createRawInstance_entry [simp]:
  "factory_map_map (createRawInstance_entry managed L w) = factory_map_map w"
  by (simp add: createRawInstance_entry_def emit_def)

lemma isLibraryLoaded_cong:
  "factory_map_map w' = factory_map_map w \<Longrightarrow> isLibraryLoaded L w' = isLibraryLoaded L w"
  by (simp add: isLibraryLoaded_def impl_isLibraryLoaded_def)

lemma createRawInstance_loaded:
  assumes "isLibraryLoaded L w"
      and "cmap_find cname (getFactoryMapForBaseClass base w) = Some f"
      and "isOwnedBy f (Some (this_ptr L)) \<or> isOwnedBy f None"
  shows "\<exists>w'. createRawInstance base cname managed L w =
           (Inr (create f),
            if managed then L\<lparr>plugin_ref_count := int32 (plugin_ref_count L + 1)\<rparr> else L,
            w')"
proof -
  let ?w2 = "createRawInstance_entry managed L w"
  have l2: "isLibraryLoaded L ?w2"
    using assms(1) isLibraryLoaded_cong [of ?w2 w L] by simp
  have "cmap_find cname (getFactoryMapForBaseClass base ?w2) = Some f"
    using assms(2) by (simp add: getFactoryMapForBaseClass_def)
  from createInstance_usable [OF this assms(3)]
  obtain w4 where "createInstance base cname (Some (this_ptr L)) ?w2 = (Inr (create f), w4)"
    by blast
  with l2 show ?thesis by (simp add: createRawInstance_unfold)
qed

lemma createRawInstance_no_CreateClassException:
  assumes "usable base cname (Some (this_ptr L)) w"
  shows "fst (createRawInstance base cname managed L w) \<noteq> Inl (CreateClassException m)"
proof -
  let ?w2 = "createRawInstance_entry managed L w"
  have u2: "usable base cname (Some (this_ptr L)) ?w2"
    using assms usable_cong [of ?w2 w] by simp
  obtain r3 L3 w3 where ld:
    "(if \<not> isLibraryLoaded L ?w2 then loadLibrary L ?w2 else (Inr (), L, ?w2)) = (r3, L3, w3)"
    by (metis prod_cases3)
  show ?thesis
  proof (cases r3)
    case (Inl e)
    with ld have "loadLibrary L ?w2 = (Inl e, L3, w3)" by (auto split: if_splits)
    from loadLibrary_exn [OF this] obtain m' where "e = LibraryLoadException m'" ..
    with Inl ld show ?thesis by (simp add: createRawInstance_unfold)
  next
    case (Inr u)
    have t3: "this_ptr L3 = this_ptr L"
      using ld by (auto split: if_splits dest: loadLibrary_loader)
    have "usable base cname (Some (this_ptr L)) w3"
      using ld u2 by (auto split: if_splits dest: usable_loadLibrary)
    then obtain f where "cmap_find cname (getFactoryMapForBaseClass base w3) = Some f"
        and "isOwnedBy f (Some (this_ptr L)) \<or> isOwnedBy f None"
      by (auto simp: usable_def)
    from createInstance_usable [OF this]
    obtain w4 where "createInstance base cname (Some (this_ptr L)) w3 = (Inr (create f), w4)"
      by blast
    with Inr ld t3 show ?thesis by (simp add: createRawInstance_unfold)
  qed
qed

section \<open>Counting loads and unloads\<close>

lemma unbind_calls_impl_unloadLibrary:
  "unbind_calls p l (impl_unloadLibrary path loader w) =
     unbind_calls p l w + (if p = path \<and> l = loader then 1 else 0)"
  by (auto simp: unbind_calls_def impl_unloadLibrary_def Let_def emit_def
        hasANonPurePluginLibraryBeenOpened_def)

lemma unloadLibrary_idle:
  assumes "plugin_ref_count L = 0" and "0 \<le> load_ref_count L"
      and "load_ref_count L \<le> 2147483647"
  shows "unloadLibrary L w =
           (max 0 (load_ref_count L - 1),
            L\<lparr>load_ref_count := max 0 (load_ref_count L - 1)\<rparr>,
            if load_ref_count L = 1
            then impl_unloadLibrary (library_path L) (this_ptr L) w else w)"
proof -
  have "int32 (load_ref_count L - 1) = load_ref_count L - 1"
    using assms(2,3) by (intro int32_id) simp_all
  with assms(1) show ?thesis
    by (auto simp: unloadLibrary_def unloadLibraryInternal_def Let_def getLibraryPath_def max_def)
qed

lemma unloadLibrary_times_idle:
  assumes "plugin_ref_count L = 0" and "0 \<le> load_ref_count L"
      and "load_ref_count L \<le> 2147483647"
      and "unloadLibrary_times k L w = (rs, L', w')"
  shows "rs = map (\<lambda>i. max 0 (load_ref_count L - int i - 1)) [0..<k]
       \<and> L' = L\<lparr>load_ref_count := max 0 (load_ref_count L - int k)\<rparr>
       \<and> unbind_calls (library_path L) (this_ptr L) w' =
           unbind_calls (library_path L) (this_ptr L) w
             + (if 1 \<le> load_ref_count L \<and> load_ref_count L \<le> int k then 1 else 0)"
  using assms
proof (induction k arbitrary: L w rs L' w')
  case 0
  then show ?case by simp
next
  case (Suc k)
  let ?L1 = "L\<lparr>load_ref_count := max 0 (load_ref_count L - 1)\<rparr>"
  let ?w1 = "if load_ref_count L = 1
             then impl_unloadLibrary (library_path L) (this_ptr L) w else w"
  have step: "unloadLibrary L w = (max 0 (load_ref_count L - 1), ?L1, ?w1)"
    using unloadLibrary_idle [OF Suc.prems(1,2,3)] .
  obtain rs2 where rest: "unloadLibrary_times k ?L1 ?w1 = (rs2, L', w')"
    and rs: "rs = max 0 (load_ref_count L - 1) # rs2"
    using Suc.prems(4) step by (auto split: prod.splits)
  have p1: "plugin_ref_count ?L1 = 0" using Suc.prems(1) by simp
  have c1: "0 \<le> load_ref_count ?L1" by simp
  have c2: "load_ref_count ?L1 \<le> 2147483647" using Suc.prems(3) by simp
  note IH = Suc.IH [OF p1 c1 c2 rest]
  have a: "rs = map (\<lambda>i. max 0 (load_ref_count L - int i - 1)) [0..<Suc k]"
  proof -
    have "rs2 = map (\<lambda>i. max 0 (max 0 (load_ref_count L - 1) - int i - 1)) [0..<k]"
      using IH by simp
    also have "\<dots> = map (\<lambda>i. max 0 (load_ref_count L - int (Suc i) - 1)) [0..<k]"
      by (rule map_cong) (auto simp: max_def)
    finally show ?thesis using rs by (simp add: map_upt_Suc del: upt_Suc)
  qed
  have b: "L' = L\<lparr>load_ref_count := max 0 (load_ref_count L - int (Suc k))\<rparr>"
    using IH Suc.prems(2) by (auto simp: max_def)
  have c: "unbind_calls (library_path L) (this_ptr L) w' =
           unbind_calls (library_path L) (this_ptr L) w
             + (if 1 \<le> load_ref_count L \<and> load_ref_count L \<le> int (Suc k) then 1 else 0)"
    using IH Suc.prems(2) by (auto simp: unbind_calls_impl_unloadLibrary max_def)
  from a b c show ?case by blast
qed

section \<open>The non-pure flag along every operation\<close>

lemma flag_emit [simp]:
  "non_pure_plugin_library_opened (emit e w) = non_pure_plugin_library_opened w"
  by (simp add: emit_def)

lemma flag_registerPlugin:
  "non_pure_plugin_library_opened (registerPlugin derived base cname bname w) =
     (non_pure_plugin_library_opened w \<or> currently_active_plugin_loader w = None)"
  by (auto simp: registerPlugin_def Let_def getCurrentlyActivePluginLoader_def
        set_hasANonPurePluginLibraryBeenOpened_def setFactoryMapForBaseClass_def emit_def)

lemma flag_createInstance:
  "createInstance base cname loader w = (r, w')
     \<Longrightarrow> non_pure_plugin_library_opened w' = non_pure_plugin_library_opened w"
  by (auto simp: createInstance_def Let_def split: option.splits if_splits)

lemma flag_run_static_initializers:
  "non_pure_plugin_library_opened w
     \<Longrightarrow> non_pure_plugin_library_opened (run_static_initializers regs w)"
  by (induction regs w rule: run_static_initializers.induct) (simp_all add: flag_registerPlugin)

lemma flag_SharedLibrary_load:
  "SharedLibrary_load h path w = (r, w') \<Longrightarrow> non_pure_plugin_library_opened w
     \<Longrightarrow> non_pure_plugin_library_opened w'"
  by (auto simp: SharedLibrary_load_def flag_run_static_initializers
        split: if_splits dl_result.splits)

lemma flag_impl_loadLibrary:
  "impl_loadLibrary path l w = (r, w') \<Longrightarrow> non_pure_plugin_library_opened w
     \<Longrightarrow> non_pure_plugin_library_opened w'"
  by (auto simp: impl_loadLibrary_def Let_def exit_load_def share_factories_def
        setCurrentlyActivePluginLoader_def setCurrentlyLoadingLibraryName_def
        split: if_splits prod.splits sum.splits
        dest!: flag_SharedLibrary_load)

lemma flag_impl_unloadLibrary:
  "non_pure_plugin_library_opened w
     \<Longrightarrow> non_pure_plugin_library_opened (impl_unloadLibrary path l w)"
  by (simp add: impl_unloadLibrary_def Let_def hasANonPurePluginLibraryBeenOpened_def)

lemma flag_loadLibrary:
  "loadLibrary L w = (r, L', w') \<Longrightarrow> non_pure_plugin_library_opened w
     \<Longrightarrow> non_pure_plugin_library_opened w'"
  by (auto simp: loadLibrary_def Let_def split: prod.splits dest: flag_impl_loadLibrary)

lemma flag_unloadLibraryInternal:
  "unloadLibraryInternal lk L w = (n, L', w') \<Longrightarrow> non_pure_plugin_library_opened w
     \<Longrightarrow> non_pure_plugin_library_opened w'"
  by (auto simp: unloadLibraryInternal_def Let_def flag_impl_unloadLibrary split: if_splits)

lemma flag_ctor:
  "PluginLoader_ctor this path ondemand w = (r, w') \<Longrightarrow> non_pure_plugin_library_opened w
     \<Longrightarrow> non_pure_plugin_library_opened w'"
  by (auto simp: PluginLoader_ctor_def Let_def split: if_splits prod.splits sum.splits
        dest!: flag_loadLibrary)

lemma flag_dtor:
  "PluginLoader_dtor L w = (L', w') \<Longrightarrow> non_pure_plugin_library_opened w
     \<Longrightarrow> non_pure_plugin_library_opened w'"
  by (auto simp: PluginLoader_dtor_def unloadLibrary_def split: prod.splits
        dest!: flag_unloadLibraryInternal)

lemma flag_createRawInstance:
  assumes "createRawInstance base cname managed L w = (r, L', w')"
      and "non_pure_plugin_library_opened w"
  shows "non_pure_plugin_library_opened w'"
proof -
  let ?w2 = "createRawInstance_entry managed L w"
  have f2: "non_pure_plugin_library_opened ?w2"
    using assms(2) by (simp add: createRawInstance_entry_def)
  obtain r3 L3 w3 where ld:
    "(if \<not> isLibraryLoaded L ?w2 then loadLibrary L ?w2 else (Inr (), L, ?w2)) = (r3, L3, w3)"
    by (metis prod_cases3)
  have f3: "non_pure_plugin_library_opened w3"
    using ld f2 by (auto split: if_splits dest: flag_loadLibrary)
  show ?thesis
  proof (cases r3)
    case (Inl e)
    with assms(1) ld have "w' = w3"
      by (simp add: createRawInstance_unfold)
    with f3 show ?thesis by simp
  next
    case (Inr u)
    obtain r4 w4 where ci: "createInstance base cname (Some (this_ptr L3)) w3 = (r4, w4)"
      by (metis surj_pair)
    from Inr assms(1) ld ci have "w' = w4"
      by (cases r4) (simp_all add: createRawInstance_unfold)
    with f3 flag_createInstance [OF ci] show ?thesis by simp
  qed
qed

lemma flag_onPluginDeletion:
  "onPluginDeletion ob L w = Some (L', w') \<Longrightarrow> non_pure_plugin_library_opened w
     \<Longrightarrow> non_pure_plugin_library_opened w'"
  by (auto simp: onPluginDeletion_def Let_def split: option.splits if_splits prod.splits
        dest!: flag_unloadLibraryInternal)

lemma flag_multi_loadLibrary:
  "MultiLibraryPluginLoader_loadLibrary addr path M w = (r, M', w')
     \<Longrightarrow> non_pure_plugin_library_opened w \<Longrightarrow> non_pure_plugin_library_opened w'"
  by (auto simp: MultiLibraryPluginLoader_loadLibrary_def split: if_splits prod.splits sum.splits
        dest!: flag_ctor)

lemma flag_multi_unloadLibrary:
  "MultiLibraryPluginLoader_unloadLibrary path M w = (n, M', w')
     \<Longrightarrow> non_pure_plugin_library_opened w \<Longrightarrow> non_pure_plugin_library_opened w'"
  by (auto simp: MultiLibraryPluginLoader_unloadLibrary_def unloadLibrary_def
        split: option.splits if_splits prod.splits
        dest!: flag_unloadLibraryInternal flag_dtor)

lemma flag_getPluginLoaderForClass_loop:
  "getPluginLoaderForClass_loop base cname loaders w = (r, loaders', w')
     \<Longrightarrow> non_pure_plugin_library_opened w \<Longrightarrow> non_pure_plugin_library_opened w'"
proof (induction loaders arbitrary: w r loaders' w')
  case Nil
  then show ?case by simp
next
  case (Cons pl rest)
  obtain p L where pl: "pl = (p, L)" by (cases pl)
  obtain r1 L1 w1 where ld: "(if \<not> isLibraryLoaded L w then loadLibrary L w else (Inr (), L, w)) = (r1, L1, w1)"
    by (metis prod_cases3)
  have f1: "non_pure_plugin_library_opened w1"
    using ld Cons.prems(2) by (auto split: if_splits dest: flag_loadLibrary)
  show ?case
  proof (cases r1)
    case (Inl e)
    with Cons.prems(1) pl ld have "w' = w1" by simp
    with f1 show ?thesis by simp
  next
    case (Inr u)
    show ?thesis
    proof (cases "isClassAvailable base cname L1 w1")
      case True
      with Inr Cons.prems(1) pl ld have "w' = w1" by simp
      with f1 show ?thesis by simp
    next
      case False
      obtain r2 rest2 w2 where rec: "getPluginLoaderForClass_loop base cname rest w1 = (r2, rest2, w2)"
        by (metis prod_cases3)
      with False Inr Cons.prems(1) pl ld have "w' = w2" by simp
      with Cons.IH [OF rec f1] show ?thesis by simp
    qed
  qed
qed

lemma flag_getPluginLoaderForClass:
  "getPluginLoaderForClass base cname M w = (r, M', w')
     \<Longrightarrow> non_pure_plugin_library_opened w \<Longrightarrow> non_pure_plugin_library_opened w'"
  by (auto simp: getPluginLoaderForClass_def split: prod.splits
        dest: flag_getPluginLoaderForClass_loop)

lemma flag_createSharedInstance:
  "createSharedInstance base cname L w = (r, L', w')
     \<Longrightarrow> non_pure_plugin_library_opened w \<Longrightarrow> non_pure_plugin_library_opened w'"
  by (simp add: createSharedInstance_def flag_createRawInstance)

lemma flag_multi_create:
  assumes "MultiLibraryPluginLoader_createSharedInstance base cname M w = (r, M', w')"
      and "non_pure_plugin_library_opened w"
  shows "non_pure_plugin_library_opened w'"
proof -
  obtain r1 M1 w1 where g: "getPluginLoaderForClass base cname M (logDebug w) = (r1, M1, w1)"
    by (metis prod_cases3)
  have f1: "non_pure_plugin_library_opened w1"
    using flag_getPluginLoaderForClass [OF g] assms(2) by simp
  show ?thesis
  proof (cases r1)
    case (Inl e)
    with assms(1) g f1 show ?thesis
      by (simp add: MultiLibraryPluginLoader_createSharedInstance_def)
  next
    case (Inr found)
    show ?thesis
    proof (cases found)
      case None
      with Inr assms(1) g f1 show ?thesis
        by (simp add: MultiLibraryPluginLoader_createSharedInstance_def)
    next
      case (Some pl)
      obtain p loader where pl: "pl = (p, loader)" by (cases pl)
      obtain r2 L2 w2 where c: "createSharedInstance base cname loader w1 = (r2, L2, w2)"
        by (metis prod_cases3)
      from Some Inr assms(1) g pl c have "w' = w2"
        by (simp add: MultiLibraryPluginLoader_createSharedInstance_def)
      with flag_createSharedInstance [OF c f1] show ?thesis by simp
    qed
  qed
qed

lemma flag_multi_create_in:
  "MultiLibraryPluginLoader_createSharedInstance_in base cname path M w = (r, M', w')
     \<Longrightarrow> non_pure_plugin_library_opened w \<Longrightarrow> non_pure_plugin_library_opened w'"
  by (auto simp: MultiLibraryPluginLoader_createSharedInstance_in_def
        split: option.splits prod.splits dest: flag_createSharedInstance)

lemma flag_shutdownAllPluginLoaders_loop:
  "shutdownAllPluginLoaders_loop paths M w = (M', w')
     \<Longrightarrow> non_pure_plugin_library_opened w \<Longrightarrow> non_pure_plugin_library_opened w'"
proof (induction paths arbitrary: M w)
  case Nil
  then show ?case by simp
next
  case (Cons lib_path paths)
  obtain n M1 w1 where u: "MultiLibraryPluginLoader_unloadLibrary lib_path M w = (n, M1, w1)"
    by (metis prod_cases3)
  with Cons.prems(1) have "shutdownAllPluginLoaders_loop paths M1 w1 = (M', w')" by simp
  from Cons.IH [OF this] flag_multi_unloadLibrary [OF u Cons.prems(2)] show ?case .
qed

lemma flag_op_step:
  "op_step w w' \<Longrightarrow> non_pure_plugin_library_opened w \<Longrightarrow> non_pure_plugin_library_opened w'"
proof (induction rule: op_step.induct)
  case (step_registerPlugin w derived base cname bname)
  then show ?case by (simp add: flag_registerPlugin)
next
  case (step_createInstance base cname loader w r w')
  then show ?case by (simp add: flag_createInstance)
next
  case (step_impl_loadLibrary path l w ru w')
  then show ?case by (rule flag_impl_loadLibrary)
next
  case (step_impl_unloadLibrary w path l)
  then show ?case by (rule flag_impl_unloadLibrary)
next
  case (step_ctor this path ondemand w rl w')
  then show ?case by (rule flag_ctor)
next
  case (step_dtor L w L' w')
  then show ?case by (rule flag_dtor)
next
  case (step_loadLibrary L w ru L' w')
  then show ?case by (rule flag_loadLibrary)
next
  case (step_unloadLibrary lk L w n L' w')
  then show ?case by (rule flag_unloadLibraryInternal)
next
  case (step_createRawInstance base cname managed L w r L' w')
  then show ?case by (rule flag_createRawInstance)
next
  case (step_onPluginDeletion ob L w L' w')
  then show ?case by (rule flag_onPluginDeletion)
next
  case (step_multi_loadLibrary addr path M w ru M' w')
  then show ?case by (rule flag_multi_loadLibrary)
next
  case (step_multi_unloadLibrary path M w n M' w')
  then show ?case by (rule flag_multi_unloadLibrary)
next
  case (step_multi_getPluginLoaderForClass base cname M w rp M' w')
  then show ?case by (rule flag_getPluginLoaderForClass)
next
  case (step_multi_create base cname M w r M' w')
  then show ?case by (rule flag_multi_create)
next
  case (step_multi_create_in base cname path M w r M' w')
  then show ?case by (rule flag_multi_create_in)
next
  case (step_multi_shutdown M w M' w')
  then show ?case by (auto simp: shutdownAllPluginLoaders_def dest: flag_shutdownAllPluginLoaders_loop)
qed

section \<open>The maps keep the invariant of std::map\<close>

text \<open>
  Every state that the operations reach from the initial one has well-formed registry
  maps, and the operations of a multi-library loader keep its map of loaders
  well-formed: the invariant that the claims below assume of a map is no restriction.
\<close>

lemma keys_cmap_assign: "set (map fst (cmap_assign k v m)) = insert k (set (map fst m))"
proof (induction m)
  case Nil
  then show ?case by simp
next
  case (Cons kv m)
  obtain k' v' where kv: "kv = (k', v')" by (cases kv)
  have "set (map fst ((k', v') # cmap_assign k v m)) = insert k' (insert k (set (map fst m)))"
    using Cons.IH by simp
  then show ?case unfolding kv by (simp add: insert_commute)
qed

lemma cmap_wf_assign: "cmap_wf m \<Longrightarrow> cmap_wf (cmap_assign k v m)"
proof (induction m)
  case Nil
  then show ?case by (simp add: cmap_wf_def)
next
  case (Cons kv m)
  obtain k' v' where kv: "kv = (k', v')" by (cases kv)
  from Cons.prems have wf: "cmap_wf m" and lt: "\<forall>x \<in> set (map fst m). k' < x"
    by (auto simp: cmap_wf_def kv)
  show ?case
  proof (cases "k < k'")
    case True
    with Cons.prems lt show ?thesis by (auto simp: cmap_wf_def kv)
  next
    case False
    show ?thesis
    proof (cases "k = k'")
      case True
      with Cons.prems show ?thesis by (simp add: cmap_wf_def kv)
    next
      case ne: False
      with False have "k' < k" by simp
      moreover from Cons.IH [OF wf] have "sorted_wrt (<) (map fst (cmap_assign k v m))"
        by (simp add: cmap_wf_def)
      ultimately show ?thesis
        using False ne lt keys_cmap_assign [of k v m] by (auto simp: cmap_wf_def kv)
    qed
  qed
qed

lemma values_cmap_assign: "x \<in> set (cmap_assign k v m) \<Longrightarrow> snd x = v \<or> x \<in> set m"
  by (induction m) (auto split: if_splits)

lemma cmap_wf_erase: "cmap_wf m \<Longrightarrow> cmap_wf (cmap_erase k m)"
proof (induction m)
  case Nil
  then show ?case by simp
next
  case (Cons kv m)
  have sub: "x \<in> set (cmap_erase k m) \<Longrightarrow> x \<in> set m" for x and m :: "('a \<times> 'b) list"
    by (induction m) (auto split: if_splits)
  from Cons show ?case using sub [of _ m] by (cases kv) (auto simp: cmap_wf_def)
qed

lemma cmap_wf_map_values: "cmap_wf (map (\<lambda>kv. (fst kv, h kv)) m) = cmap_wf m"
  by (simp add: cmap_wf_def comp_def)

lemma cmap_wf_filter: "cmap_wf m \<Longrightarrow> cmap_wf (filter P m)"
  by (simp add: cmap_wf_def sorted_wrt_map sorted_wrt_filter)

lemma cmap_find_wf:
  "list_all (\<lambda>bm. cmap_wf (snd bm)) mm \<Longrightarrow> cmap_find b mm = Some m \<Longrightarrow> cmap_wf m"
  by (induction mm) (auto split: if_splits)

lemma registry_wf_factory_map:
  assumes "registry_wf w"
  shows "cmap_wf (getFactoryMapForBaseClass base w)"
proof (cases "cmap_find base (factory_map_map w)")
  case None
  then show ?thesis by (simp add: getFactoryMapForBaseClass_def cmap_wf_def)
next
  case (Some m)
  with assms cmap_find_wf [of "factory_map_map w" base m] show ?thesis
    by (simp add: getFactoryMapForBaseClass_def registry_wf_def)
qed

lemma registry_wf_cong:
  "factory_map_map w' = factory_map_map w \<Longrightarrow> registry_wf w' = registry_wf w"
  by (simp add: registry_wf_def)

lemma registry_wf_initial: "registry_wf (initial_world dl)"
  by (simp add: registry_wf_def initial_world_def cmap_wf_def)

lemma registry_wf_setFactoryMap:
  assumes "registry_wf w" and "cmap_wf m"
  shows "registry_wf (setFactoryMapForBaseClass base m w)"
proof -
  have "cmap_wf (cmap_assign base m (factory_map_map w))"
    using assms(1) by (simp add: registry_wf_def cmap_wf_assign)
  moreover have "\<forall>x \<in> set (cmap_assign base m (factory_map_map w)). cmap_wf (snd x)"
    using values_cmap_assign [of _ base m "factory_map_map w"] assms
    by (auto simp: registry_wf_def list_all_iff)
  ultimately show ?thesis
    by (simp add: registry_wf_def setFactoryMapForBaseClass_def list_all_iff)
qed

lemma wf_registerPlugin:
  assumes "registry_wf w"
  shows "registry_wf (registerPlugin d b c bn w)"
proof -
  define w2 where "w2 = (if getCurrentlyActivePluginLoader (logDebug w) = None
                then set_hasANonPurePluginLibraryBeenOpened True (logDebug (logDebug w))
                else logDebug w)"
  define w3 where "w3 = (if cmap_find c (getFactoryMapForBaseClass b w2) \<noteq> None then logWarn w2 else w2)"
  have fm: "factory_map_map w3 = factory_map_map w"
    by (simp add: w3_def w2_def emit_def set_hasANonPurePluginLibraryBeenOpened_def)
  have wf3: "registry_wf w3" using assms registry_wf_cong [OF fm] by simp
  have wf2: "registry_wf w2" using assms
    by (simp add: w2_def registry_wf_def emit_def set_hasANonPurePluginLibraryBeenOpened_def)
  let ?f = "setAssociatedLibraryPath (getCurrentlyLoadingLibraryName w2)
              (addOwningPluginLoader (getCurrentlyActivePluginLoader w2) (MetaObject d c bn))"
  have eq: "registerPlugin d b c bn w =
          logDebug (setFactoryMapForBaseClass b (cmap_assign c ?f (getFactoryMapForBaseClass b w2)) w3)"
    by (simp add: registerPlugin_def Let_def w2_def w3_def)
  have "cmap_wf (cmap_assign c ?f (getFactoryMapForBaseClass b w2))"
    using registry_wf_factory_map [OF wf2] by (rule cmap_wf_assign)
  from registry_wf_setFactoryMap [OF wf3 this] show ?thesis
    unfolding eq by (simp add: registry_wf_def emit_def)
qed

lemma wf_createInstance:
  "createInstance base cname loader w = (r, w') \<Longrightarrow> registry_wf w' = registry_wf w"
  by (auto simp: createInstance_def Let_def registry_wf_def emit_def split: option.splits if_splits)

lemma wf_run_static_initializers:
  "registry_wf w \<Longrightarrow> registry_wf (run_static_initializers regs w)"
  by (induction regs w rule: run_static_initializers.induct) (simp_all add: wf_registerPlugin)

lemma wf_SharedLibrary_load:
  "SharedLibrary_load h path w = (r, w') \<Longrightarrow> registry_wf w \<Longrightarrow> registry_wf w'"
  by (auto simp: SharedLibrary_load_def wf_run_static_initializers
        split: if_splits dl_result.splits)

lemma wf_share_factories: "registry_wf w \<Longrightarrow> registry_wf (share_factories path l w)"
  by (simp add: registry_wf_def share_factories_def cmap_wf_map_values list_all_iff)

lemma wf_impl_loadLibrary:
  assumes "impl_loadLibrary path l w = (r, w')" and "registry_wf w"
  shows "registry_wf w'"
proof -
  define w2 where "w2 = setCurrentlyActivePluginLoader (Some l)
                 (setCurrentlyLoadingLibraryName path (emit (ImplLoadLibrary path l) w))"
  have wf2: "registry_wf w2"
    using assms(2)
    by (simp add: w2_def registry_wf_def emit_def
          setCurrentlyActivePluginLoader_def setCurrentlyLoadingLibraryName_def)
  obtain r3 w3 where mid: "(if impl_isLibraryLoadedByAnybody path w2
               then (Inr (), share_factories path l w2)
               else SharedLibrary_load False path w2) = (r3, w3)"
    by (metis surj_pair)
  have wf3: "registry_wf w3"
    using mid wf2 by (auto simp: wf_share_factories split: if_splits dest: wf_SharedLibrary_load)
  have unf: "impl_loadLibrary path l w =
      (case (if impl_isLibraryLoadedByAnybody path w2
               then (Inr (), share_factories path l w2)
               else SharedLibrary_load False path w2) of
           (Inl e, w3) \<Rightarrow> (Inl e, exit_load w3)
         | (Inr u, w3) \<Rightarrow>
             (Inr (), (exit_load w3)\<lparr>loaded_library_vector :=
                         increment_open_count path (loaded_library_vector w3)\<rparr>))"
    by (simp add: impl_loadLibrary_def Let_def w2_def)
  have fm: "factory_map_map w' = factory_map_map w3"
    using assms(1) mid unfolding unf
    by (cases r3)
       (auto simp: exit_load_def
          setCurrentlyActivePluginLoader_def setCurrentlyLoadingLibraryName_def)
  from registry_wf_cong [OF fm] wf3 show ?thesis by simp
qed

lemma wf_impl_unloadLibrary:
  "registry_wf w \<Longrightarrow> registry_wf (impl_unloadLibrary path l w)"
  by (auto simp: impl_unloadLibrary_def Let_def registry_wf_def emit_def list_all_iff
        cmap_wf_filter cmap_wf_map_values)

lemma wf_emit [simp]: "registry_wf (emit e w) = registry_wf w"
  by (simp add: registry_wf_def emit_def)

lemma wf_createRawInstance_entry [simp]:
  "registry_wf (createRawInstance_entry managed L w) = registry_wf w"
  by (simp add: registry_wf_def)

lemma wf_loadLibrary:
  "loadLibrary L w = (r, L', w') \<Longrightarrow> registry_wf w
     \<Longrightarrow> registry_wf w'"
  by (auto simp: loadLibrary_def Let_def split: prod.splits dest: wf_impl_loadLibrary)

lemma wf_unloadLibraryInternal:
  "unloadLibraryInternal lk L w = (n, L', w') \<Longrightarrow> registry_wf w
     \<Longrightarrow> registry_wf w'"
  by (auto simp: unloadLibraryInternal_def Let_def wf_impl_unloadLibrary split: if_splits)

lemma wf_ctor:
  "PluginLoader_ctor this path ondemand w = (r, w') \<Longrightarrow> registry_wf w
     \<Longrightarrow> registry_wf w'"
  by (auto simp: PluginLoader_ctor_def Let_def split: if_splits prod.splits sum.splits
        dest!: wf_loadLibrary)

lemma wf_dtor:
  "PluginLoader_dtor L w = (L', w') \<Longrightarrow> registry_wf w
     \<Longrightarrow> registry_wf w'"
  by (auto simp: PluginLoader_dtor_def unloadLibrary_def split: prod.splits
        dest!: wf_unloadLibraryInternal)

lemma wf_createRawInstance:
  assumes "createRawInstance base cname managed L w = (r, L', w')"
      and "registry_wf w"
  shows "registry_wf w'"
proof -
  let ?w2 = "createRawInstance_entry managed L w"
  have f2: "registry_wf ?w2"
    using assms(2) by simp
  obtain r3 L3 w3 where ld:
    "(if \<not> isLibraryLoaded L ?w2 then loadLibrary L ?w2 else (Inr (), L, ?w2)) = (r3, L3, w3)"
    by (metis prod_cases3)
  have f3: "registry_wf w3"
    using ld f2 by (auto split: if_splits dest: wf_loadLibrary)
  show ?thesis
  proof (cases r3)
    case (Inl e)
    with assms(1) ld have "w' = w3"
      by (simp add: createRawInstance_unfold)
    with f3 show ?thesis by simp
  next
    case (Inr u)
    obtain r4 w4 where ci: "createInstance base cname (Some (this_ptr L3)) w3 = (r4, w4)"
      by (metis surj_pair)
    from Inr assms(1) ld ci have "w' = w4"
      by (cases r4) (simp_all add: createRawInstance_unfold)
    with f3 wf_createInstance [OF ci] show ?thesis by simp
  qed
qed

lemma wf_onPluginDeletion:
  "onPluginDeletion ob L w = Some (L', w') \<Longrightarrow> registry_wf w
     \<Longrightarrow> registry_wf w'"
  by (auto simp: onPluginDeletion_def Let_def split: option.splits if_splits prod.splits
        dest!: wf_unloadLibraryInternal)

lemma wf_multi_loadLibrary:
  "MultiLibraryPluginLoader_loadLibrary addr path M w = (r, M', w')
     \<Longrightarrow> registry_wf w \<Longrightarrow> registry_wf w'"
  by (auto simp: MultiLibraryPluginLoader_loadLibrary_def split: if_splits prod.splits sum.splits
        dest!: wf_ctor)

lemma wf_multi_unloadLibrary:
  "MultiLibraryPluginLoader_unloadLibrary path M w = (n, M', w')
     \<Longrightarrow> registry_wf w \<Longrightarrow> registry_wf w'"
  by (auto simp: MultiLibraryPluginLoader_unloadLibrary_def unloadLibrary_def
        split: option.splits if_splits prod.splits
        dest!: wf_unloadLibraryInternal wf_dtor)

lemma wf_getPluginLoaderForClass_loop:
  "getPluginLoaderForClass_loop base cname loaders w = (r, loaders', w')
     \<Longrightarrow> registry_wf w \<Longrightarrow> registry_wf w'"
proof (induction loaders arbitrary: w r loaders' w')
  case Nil
  then show ?case by simp
next
  case (Cons pl rest)
  obtain p L where pl: "pl = (p, L)" by (cases pl)
  obtain r1 L1 w1 where ld: "(if \<not> isLibraryLoaded L w then loadLibrary L w else (Inr (), L, w)) = (r1, L1, w1)"
    by (metis prod_cases3)
  have f1: "registry_wf w1"
    using ld Cons.prems(2) by (auto split: if_splits dest: wf_loadLibrary)
  show ?case
  proof (cases r1)
    case (Inl e)
    with Cons.prems(1) pl ld have "w' = w1" by simp
    with f1 show ?thesis by simp
  next
    case (Inr u)
    show ?thesis
    proof (cases "isClassAvailable base cname L1 w1")
      case True
      with Inr Cons.prems(1) pl ld have "w' = w1" by simp
      with f1 show ?thesis by simp
    next
      case False
      obtain r2 rest2 w2 where rec: "getPluginLoaderForClass_loop base cname rest w1 = (r2, rest2, w2)"
        by (metis prod_cases3)
      with False Inr Cons.prems(1) pl ld have "w' = w2" by simp
      with Cons.IH [OF rec f1] show ?thesis by simp
    qed
  qed
qed

lemma wf_getPluginLoaderForClass:
  "getPluginLoaderForClass base cname M w = (r, M', w')
     \<Longrightarrow> registry_wf w \<Longrightarrow> registry_wf w'"
  by (auto simp: getPluginLoaderForClass_def split: prod.splits
        dest: wf_getPluginLoaderForClass_loop)

lemma wf_createSharedInstance:
  "createSharedInstance base cname L w = (r, L', w')
     \<Longrightarrow> registry_wf w \<Longrightarrow> registry_wf w'"
  by (simp add: createSharedInstance_def wf_createRawInstance)

lemma wf_multi_create:
  assumes "MultiLibraryPluginLoader_createSharedInstance base cname M w = (r, M', w')"
      and "registry_wf w"
  shows "registry_wf w'"
proof -
  obtain r1 M1 w1 where g: "getPluginLoaderForClass base cname M (logDebug w) = (r1, M1, w1)"
    by (metis prod_cases3)
  have f1: "registry_wf w1"
    using wf_getPluginLoaderForClass [OF g] assms(2) by simp
  show ?thesis
  proof (cases r1)
    case (Inl e)
    with assms(1) g f1 show ?thesis
      by (simp add: MultiLibraryPluginLoader_createSharedInstance_def)
  next
    case (Inr found)
    show ?thesis
    proof (cases found)
      case None
      with Inr assms(1) g f1 show ?thesis
        by (simp add: MultiLibraryPluginLoader_createSharedInstance_def)
    next
      case (Some pl)
      obtain p loader where pl: "pl = (p, loader)" by (cases pl)
      obtain r2 L2 w2 where c: "createSharedInstance base cname loader w1 = (r2, L2, w2)"
        by (metis prod_cases3)
      from Some Inr assms(1) g pl c have "w' = w2"
        by (simp add: MultiLibraryPluginLoader_createSharedInstance_def)
      with wf_createSharedInstance [OF c f1] show ?thesis by simp
    qed
  qed
qed

lemma wf_multi_create_in:
  "MultiLibraryPluginLoader_createSharedInstance_in base cname path M w = (r, M', w')
     \<Longrightarrow> registry_wf w \<Longrightarrow> registry_wf w'"
  by (auto simp: MultiLibraryPluginLoader_createSharedInstance_in_def
        split: option.splits prod.splits dest: wf_createSharedInstance)

lemma wf_shutdownAllPluginLoaders_loop:
  "shutdownAllPluginLoaders_loop paths M w = (M', w')
     \<Longrightarrow> registry_wf w \<Longrightarrow> registry_wf w'"
proof (induction paths arbitrary: M w)
  case Nil
  then show ?case by simp
next
  case (Cons lib_path paths)
  obtain n M1 w1 where u: "MultiLibraryPluginLoader_unloadLibrary lib_path M w = (n, M1, w1)"
    by (metis prod_cases3)
  with Cons.prems(1) have "shutdownAllPluginLoaders_loop paths M1 w1 = (M', w')" by simp
  from Cons.IH [OF this] wf_multi_unloadLibrary [OF u Cons.prems(2)] show ?case .
qed

lemma wf_op_step:
  "op_step w w' \<Longrightarrow> registry_wf w \<Longrightarrow> registry_wf w'"
proof (induction rule: op_step.induct)
  case (step_registerPlugin w derived base cname bname)
  then show ?case by (simp add: wf_registerPlugin)
next
  case (step_createInstance base cname loader w r w')
  then show ?case by (simp add: wf_createInstance)
next
  case (step_impl_loadLibrary path l w ru w')
  then show ?case by (rule wf_impl_loadLibrary)
next
  case (step_impl_unloadLibrary w path l)
  then show ?case by (rule wf_impl_unloadLibrary)
next
  case (step_ctor this path ondemand w rl w')
  then show ?case by (rule wf_ctor)
next
  case (step_dtor L w L' w')
  then show ?case by (rule wf_dtor)
next
  case (step_loadLibrary L w ru L' w')
  then show ?case by (rule wf_loadLibrary)
next
  case (step_unloadLibrary lk L w n L' w')
  then show ?case by (rule wf_unloadLibraryInternal)
next
  case (step_createRawInstance base cname managed L w r L' w')
  then show ?case by (rule wf_createRawInstance)
next
  case (step_onPluginDeletion ob L w L' w')
  then show ?case by (rule wf_onPluginDeletion)
next
  case (step_multi_loadLibrary addr path M w ru M' w')
  then show ?case by (rule wf_multi_loadLibrary)
next
  case (step_multi_unloadLibrary path M w n M' w')
  then show ?case by (rule wf_multi_unloadLibrary)
next
  case (step_multi_getPluginLoaderForClass base cname M w rp M' w')
  then show ?case by (rule wf_getPluginLoaderForClass)
next
  case (step_multi_create base cname M w r M' w')
  then show ?case by (rule wf_multi_create)
next
  case (step_multi_create_in base cname path M w r M' w')
  then show ?case by (rule wf_multi_create_in)
next
  case (step_multi_shutdown M w M' w')
  then show ?case by (auto simp: shutdownAllPluginLoaders_def dest: wf_shutdownAllPluginLoaders_loop)
qed


lemma reachable_registry_wf:
  "op_step\<^sup>*\<^sup>* (initial_world dl) w \<Longrightarrow> registry_wf w"
  by (induction rule: rtranclp_induct) (auto simp: registry_wf_initial dest: wf_op_step)

lemma keys_getPluginLoaderForClass_loop:
  "getPluginLoaderForClass_loop base cname loaders w = (r, loaders', w')
     \<Longrightarrow> map fst loaders' = map fst loaders"
proof (induction loaders arbitrary: w r loaders' w')
  case Nil
  then show ?case by simp
next
  case (Cons pl rest)
  obtain p L where pl: "pl = (p, L)" by (cases pl)
  obtain r1 L1 w1 where ld:
    "(if \<not> isLibraryLoaded L w then loadLibrary L w else (Inr (), L, w)) = (r1, L1, w1)"
    by (metis prod_cases3)
  show ?case
  proof (cases r1)
    case (Inl e)
    with Cons.prems pl ld show ?thesis by auto
  next
    case (Inr u)
    show ?thesis
    proof (cases "isClassAvailable base cname L1 w1")
      case True
      with Inr Cons.prems pl ld show ?thesis by auto
    next
      case False
      obtain r2 rest2 w2 where rec: "getPluginLoaderForClass_loop base cname rest w1 = (r2, rest2, w2)"
        by (metis prod_cases3)
      with False Inr Cons.prems pl ld have "loaders' = (p, L1) # rest2" by simp
      with Cons.IH [OF rec] pl show ?thesis by simp
    qed
  qed
qed

lemma loaders_wf_loadLibrary:
  "MultiLibraryPluginLoader_loadLibrary addr path M w = (r, M', w')
     \<Longrightarrow> cmap_wf (active_plugin_loaders M) \<Longrightarrow> cmap_wf (active_plugin_loaders M')"
  by (auto simp: MultiLibraryPluginLoader_loadLibrary_def cmap_wf_assign
        split: if_splits prod.splits sum.splits)

lemma loaders_wf_unloadLibrary:
  "MultiLibraryPluginLoader_unloadLibrary path M w = (n, M', w')
     \<Longrightarrow> cmap_wf (active_plugin_loaders M) \<Longrightarrow> cmap_wf (active_plugin_loaders M')"
  by (auto simp: MultiLibraryPluginLoader_unloadLibrary_def cmap_wf_assign cmap_wf_erase
        split: option.splits if_splits prod.splits)

lemma loaders_wf_getPluginLoaderForClass:
  "getPluginLoaderForClass base cname M w = (r, M', w')
     \<Longrightarrow> cmap_wf (active_plugin_loaders M) \<Longrightarrow> cmap_wf (active_plugin_loaders M')"
  by (auto simp: getPluginLoaderForClass_def cmap_wf_def split: prod.splits
        dest: keys_getPluginLoaderForClass_loop)

lemma loaders_wf_createSharedInstance:
  assumes "MultiLibraryPluginLoader_createSharedInstance base cname M w = (r, M', w')"
      and "cmap_wf (active_plugin_loaders M)"
  shows "cmap_wf (active_plugin_loaders M')"
proof -
  obtain r1 M1 w1 where g: "getPluginLoaderForClass base cname M (logDebug w) = (r1, M1, w1)"
    by (metis prod_cases3)
  have wf1: "cmap_wf (active_plugin_loaders M1)"
    using loaders_wf_getPluginLoaderForClass [OF g assms(2)] .
  show ?thesis
  proof (cases r1)
    case (Inl e)
    with assms(1) g wf1 show ?thesis
      by (simp add: MultiLibraryPluginLoader_createSharedInstance_def)
  next
    case (Inr found)
    show ?thesis
    proof (cases found)
      case None
      with Inr assms(1) g wf1 show ?thesis
        by (simp add: MultiLibraryPluginLoader_createSharedInstance_def)
    next
      case (Some pl)
      obtain p loader where pl: "pl = (p, loader)" by (cases pl)
      obtain r2 L2 w2 where c: "createSharedInstance base cname loader w1 = (r2, L2, w2)"
        by (metis prod_cases3)
      from Some Inr assms(1) g pl c
      have "active_plugin_loaders M' = cmap_assign p L2 (active_plugin_loaders M1)"
        by (auto simp: MultiLibraryPluginLoader_createSharedInstance_def)
      with wf1 show ?thesis by (simp add: cmap_wf_assign)
    qed
  qed
qed

lemma loaders_wf_ctor: "cmap_wf (active_plugin_loaders (MultiLibraryPluginLoader_ctor enable))"
  by (simp add: MultiLibraryPluginLoader_ctor_def cmap_wf_def)

section \<open>What a load can change\<close>

lemma dlopen_emit [simp]: "dlopen (emit e w) = dlopen w"
  by (simp add: emit_def)

lemma dlopen_createRawInstance_entry [simp]:
  "dlopen (createRawInstance_entry managed L w) = dlopen w"
  by (simp add: createRawInstance_entry_def)

lemma loadLibrary_fails:
  "loadLibrary L w = (Inl e, L', w')
     \<Longrightarrow> (\<exists>m. e = LibraryLoadException m) \<and> (\<exists>reason. dlopen w (library_path L) = DlFail reason)"
  by (auto simp: loadLibrary_def impl_loadLibrary_def Let_def SharedLibrary_load_def
        getLibraryPath_def setCurrentlyActivePluginLoader_def setCurrentlyLoadingLibraryName_def
        emit_def
        split: prod.splits sum.splits if_splits dl_result.splits)

lemma factory_map_createInstance:
  "createInstance base cname loader w = (r, w') \<Longrightarrow> factory_map_map w' = factory_map_map w"
  by (auto simp: createInstance_def Let_def emit_def split: option.splits if_splits)

lemma createRawInstance_unloaded:
  assumes "\<not> isLibraryLoaded L w" and "usable base cname (Some (this_ptr L)) w"
  shows "(\<exists>m w'. createRawInstance base cname managed L w =
                   (Inl (LibraryLoadException m),
                    L\<lparr>load_ref_count := int32 (load_ref_count L + 1)\<rparr>, w')
                 \<and> (\<exists>reason. dlopen w (library_path L) = DlFail reason))
       \<or> (\<exists>f' w'. createRawInstance base cname managed L w =
                   (Inr (create f'),
                    if managed
                    then L\<lparr>load_ref_count := int32 (load_ref_count L + 1),
                           plugin_ref_count := int32 (plugin_ref_count L + 1)\<rparr>
                    else L\<lparr>load_ref_count := int32 (load_ref_count L + 1)\<rparr>, w')
                 \<and> cmap_find cname (getFactoryMapForBaseClass base w') = Some f'
                 \<and> (isOwnedBy f' (Some (this_ptr L)) \<or> isOwnedBy f' None))"
proof -
  let ?w2 = "createRawInstance_entry managed L w"
  let ?L3 = "L\<lparr>load_ref_count := int32 (load_ref_count L + 1)\<rparr>"
  have n2: "\<not> isLibraryLoaded L ?w2"
    using assms(1) isLibraryLoaded_cong [of ?w2 w L] by simp
  have u2: "usable base cname (Some (this_ptr L)) ?w2"
    using assms(2) usable_cong [of ?w2 w] by simp
  obtain r3 L3 w3 where ld: "loadLibrary L ?w2 = (r3, L3, w3)"
    by (metis prod_cases3)
  have L3: "L3 = ?L3" using loadLibrary_loader [OF ld] .
  show ?thesis
  proof (cases r3)
    case (Inl e)
    with ld loadLibrary_fails [of L ?w2 e L3 w3]
    obtain m reason where "e = LibraryLoadException m"
        and "dlopen w (library_path L) = DlFail reason"
      by auto
    with Inl ld n2 L3 show ?thesis by (auto simp: createRawInstance_unfold)
  next
    case (Inr u)
    have "usable base cname (Some (this_ptr L)) w3"
      using usable_loadLibrary [OF ld u2] .
    then obtain f' where f': "cmap_find cname (getFactoryMapForBaseClass base w3) = Some f'"
        and own: "isOwnedBy f' (Some (this_ptr L)) \<or> isOwnedBy f' None"
      by (auto simp: usable_def)
    from createInstance_usable [OF f' own]
    obtain w4 where ci: "createInstance base cname (Some (this_ptr L)) w3 = (Inr (create f'), w4)"
      by blast
    have "cmap_find cname (getFactoryMapForBaseClass base w4) = Some f'"
      using f' factory_map_createInstance [OF ci] by (simp add: getFactoryMapForBaseClass_def)
    with Inr ld n2 L3 ci own show ?thesis by (auto simp: createRawInstance_unfold)
  qed
qed













lemma dlopen_registerPlugin [simp]: "dlopen (registerPlugin d b c bn w) = dlopen w"
  by (simp add: registerPlugin_def Let_def set_hasANonPurePluginLibraryBeenOpened_def emit_def
        setFactoryMapForBaseClass_def)

lemma dlopen_run_static_initializers [simp]: "dlopen (run_static_initializers regs w) = dlopen w"
  by (induction regs w rule: run_static_initializers.induct) simp_all



section \<open>Looking a class up across several libraries\<close>

lemma visited_Nil [simp]: "visited [] []"
  by (simp add: visited_def)















section \<open>Unmappable libraries\<close>

lemma contains_nil: "contains s []"
  by (cases s) simp_all

lemma contains_prefix: "contains (b @ c) b"
  by (cases b) (simp_all add: contains_nil)

lemma contains_middle: "contains (a @ b @ c) b"
proof (induction a)
  case Nil
  then show ?case by (simp add: contains_prefix)
next
  case (Cons x a)
  then show ?case by simp
qed

lemma ctor_unmappable:
  assumes "dlopen w path = DlFail reason" and "\<not> impl_isLibraryLoadedByAnybody path w"
  shows "fst (PluginLoader_ctor this path False w) =
           Inl (LibraryLoadException
                  (''Could not load library: ''
                     @ (case dlerror path reason of Some err \<Rightarrow> err | None \<Rightarrow> path)))"
  using assms
  by (simp add: PluginLoader_ctor_def isOnDemandLoadUnloadEnabled_def loadLibrary_def Let_def
        getLibraryPath_def impl_loadLibrary_def impl_isLibraryLoadedByAnybody_def
        setCurrentlyActivePluginLoader_def setCurrentlyLoadingLibraryName_def emit_def
        SharedLibrary_load_def)

section \<open>The claims\<close>

text \<open>
  C1. Every class name in the list that \<^verbatim>\<open>getAvailableClasses\<close> returns for a loader
  can be instantiated by that loader: the name has a factory \<open>f\<close>, owned by the loader
  or by nobody, and \<^verbatim>\<open>impl::createInstance\<close> returns the object that \<open>f\<close> makes.
  \<^verbatim>\<open>createRawInstance\<close> never raises \<^verbatim>\<open>CreateClassException\<close> for the name. When the
  library is loaded for the loader it returns the object that \<open>f\<close> makes, and a managed
  instance is counted. When the library is not loaded it loads it first, which counts
  one load: either the library cannot be mapped and \<^verbatim>\<open>LibraryLoadException\<close> is
  raised, or the object is made by the factory that the name has after the load, again
  owned by the loader or by nobody. The factory map is a \<^verbatim>\<open>std::map\<close>, with each key
  once.
\<close>

theorem available_classes_instantiable:
  assumes "cmap_wf (getFactoryMapForBaseClass base w)"
      and "cname \<in> set (getAvailableClasses base (Some (this_ptr L)) w)"
  shows "\<exists>f. cmap_find cname (getFactoryMapForBaseClass base w) = Some f
          \<and> (isOwnedBy f (Some (this_ptr L)) \<or> isOwnedBy f None)
          \<and> (\<exists>w'. createInstance base cname (Some (this_ptr L)) w = (Inr (create f), w'))
          \<and> (\<forall>m. fst (createRawInstance base cname managed L w) \<noteq> Inl (CreateClassException m))
          \<and> (isLibraryLoaded L w
                \<longrightarrow> (\<exists>w'. createRawInstance base cname managed L w =
                       (Inr (create f),
                        if managed
                        then L\<lparr>plugin_ref_count := int32 (plugin_ref_count L + 1)\<rparr> else L,
                        w')))
          \<and> (\<not> isLibraryLoaded L w
                \<longrightarrow> (\<exists>m w'. createRawInstance base cname managed L w =
                            (Inl (LibraryLoadException m),
                             L\<lparr>load_ref_count := int32 (load_ref_count L + 1)\<rparr>, w')
                          \<and> (\<exists>reason. dlopen w (library_path L) = DlFail reason))
                  \<or> (\<exists>f' w'. createRawInstance base cname managed L w =
                            (Inr (create f'),
                             if managed
                             then L\<lparr>load_ref_count := int32 (load_ref_count L + 1),
                                    plugin_ref_count := int32 (plugin_ref_count L + 1)\<rparr>
                             else L\<lparr>load_ref_count := int32 (load_ref_count L + 1)\<rparr>, w')
                          \<and> cmap_find cname (getFactoryMapForBaseClass base w') = Some f'
                          \<and> (isOwnedBy f' (Some (this_ptr L)) \<or> isOwnedBy f' None)))"
proof -
  from available_usable [OF assms]
  obtain f where f: "cmap_find cname (getFactoryMapForBaseClass base w) = Some f"
      and own: "isOwnedBy f (Some (this_ptr L)) \<or> isOwnedBy f None"
    by blast
  have a: "\<exists>w'. createInstance base cname (Some (this_ptr L)) w = (Inr (create f), w')"
    using createInstance_usable [OF f own] .
  have u: "usable base cname (Some (this_ptr L)) w"
    using f own by (auto simp: usable_def)
  then have b: "\<forall>m. fst (createRawInstance base cname managed L w) \<noteq> Inl (CreateClassException m)"
    by (simp add: createRawInstance_no_CreateClassException)
  have c: "isLibraryLoaded L w
                \<longrightarrow> (\<exists>w'. createRawInstance base cname managed L w =
                       (Inr (create f),
                        if managed
                        then L\<lparr>plugin_ref_count := int32 (plugin_ref_count L + 1)\<rparr> else L,
                        w'))"
    using createRawInstance_loaded [OF _ f own, of managed] by blast
  note d = createRawInstance_unloaded [OF _ u, of managed]
  show ?thesis
    by (rule exI [of _ f]) (use f own a b c d in blast)
qed

theorem available_classes_instantiable_witness:
  "cmap_wf (getFactoryMapForBaseClass ''Base'' utest_world)
   \<and> ''Dog'' \<in> set (getAvailableClasses ''Base'' (Some (this_ptr utest_loader)) utest_world)
   \<and> isLibraryLoaded utest_loader utest_world
   \<and> (\<exists>w'. createInstance ''Base'' ''Dog'' (Some (this_ptr utest_loader)) utest_world
                 = (Inr (Obj ''Dog''), w'))
   \<and> (\<exists>w'. createRawInstance ''Base'' ''Dog'' True utest_loader utest_world
                 = (Inr (Obj ''Dog''), utest_loader\<lparr>plugin_ref_count := 1\<rparr>, w'))
   \<and> cmap_wf (getFactoryMapForBaseClass ''B'' host_linked_world)
   \<and> ''Y'' \<in> set (getAvailableClasses ''B'' (Some (this_ptr lazy_loader)) host_linked_world)
   \<and> \<not> isLibraryLoaded lazy_loader host_linked_world
   \<and> (\<exists>w'. createRawInstance ''B'' ''Y'' True lazy_loader host_linked_world
                 = (Inr (Obj ''HostY''),
                    lazy_loader\<lparr>load_ref_count := 1, plugin_ref_count := 1\<rparr>, w'))"
proof -
  have h1: "cmap_wf (getFactoryMapForBaseClass ''Base'' utest_world)"
    by code_simp
  have h2: "''Dog'' \<in> set (getAvailableClasses ''Base'' (Some (this_ptr utest_loader)) utest_world)"
    by code_simp
  have h3: "isLibraryLoaded utest_loader utest_world"
    by code_simp
  have dog: "cmap_find ''Dog'' (getFactoryMapForBaseClass ''Base'' utest_world) =
               Some \<lparr>class_name = ''Dog'', base_class_name = ''Base'', derived_type = ''Dog'',
                     associated_library_path = ''./libPlugins.so'', owners = [1]\<rparr>"
    by code_simp
  have i1: "int32 (plugin_ref_count utest_loader + 1) = 1"
    by code_simp
  from available_classes_instantiable [OF h1 h2, of True] dog h3 i1
  have first: "(\<exists>w'. createInstance ''Base'' ''Dog'' (Some (this_ptr utest_loader)) utest_world
                 = (Inr (Obj ''Dog''), w'))
     \<and> (\<exists>w'. createRawInstance ''Base'' ''Dog'' True utest_loader utest_world
                 = (Inr (Obj ''Dog''), utest_loader\<lparr>plugin_ref_count := 1\<rparr>, w'))"
    by (auto simp: create_def)
  have g1: "cmap_wf (getFactoryMapForBaseClass ''B'' host_linked_world)"
    by code_simp
  have g2: "''Y'' \<in> set (getAvailableClasses ''B'' (Some (this_ptr lazy_loader)) host_linked_world)"
    by code_simp
  have g3: "\<not> isLibraryLoaded lazy_loader host_linked_world"
    by code_simp
  have ok: "dlopen host_linked_world (library_path lazy_loader) =
              DlOk [(''Dog'', ''Base'', ''Dog'', ''Base''), (''Cat'', ''Base'', ''Cat'', ''Base''),
                 (''Duck'', ''Base'', ''Duck'', ''Base''), (''Cow'', ''Base'', ''Cow'', ''Base''),
                 (''Sheep'', ''Base'', ''Sheep'', ''Base'')]"
    by code_simp
  have y: "fst (createRawInstance ''B'' ''Y'' True lazy_loader host_linked_world) = Inr (Obj ''HostY'')"
    by code_simp
  have i2: "int32 (load_ref_count lazy_loader + 1) = 1" "int32 (plugin_ref_count lazy_loader + 1) = 1"
    by code_simp+
  from available_classes_instantiable [OF g1 g2, of True] g3 ok y i2
  have second: "\<exists>w'. createRawInstance ''B'' ''Y'' True lazy_loader host_linked_world
                 = (Inr (Obj ''HostY''),
                    lazy_loader\<lparr>load_ref_count := 1, plugin_ref_count := 1\<rparr>, w')"
    by auto
  from h1 h2 h3 first g1 g2 g3 second show ?thesis by blast
qed

text \<open>
  C2, as the code has it. The load count of a loader counts every call of
  \<^verbatim>\<open>loadLibrary()\<close>, also one that throws, less the unloads already spent. For a
  loader with no outstanding instance and a load count \<open>c\<close>, \<open>N\<close> more successful loads
  (with \<open>c + N\<close> within the range of \<^verbatim>\<open>int\<close>) and then \<open>k\<close> unloads: the \<open>i\<close>-th call of
  \<^verbatim>\<open>unloadLibrary()\<close> returns \<open>c + N - i\<close>, or 0 once the count would go negative; the
  count ends at \<open>c + N - k\<close>, or 0; and the registry is asked to unload the library
  once, by call number \<open>c + N\<close>, and by no call before or after it. So \<open>c + N\<close> unloads
  are needed, which is \<open>N\<close> for a loader whose count was 0. A call of \<^verbatim>\<open>loadLibrary()\<close>
  adds one to the count, whether it throws or not, as long as the count is below the
  greatest \<^verbatim>\<open>int\<close>; there it wraps (\<open>loadLibrary_wraps\<close>), and only then can a count be
  negative.
\<close>

theorem load_unload_symmetry:
  assumes "plugin_ref_count L0 = 0" and "0 \<le> load_ref_count L0"
      and "load_ref_count L0 + int N \<le> 2147483647"
      and "loadLibrary_times N L0 w0 = Some (L, w)"
      and "unloadLibrary_times k L w = (rs, L', w')"
  shows "rs = map (\<lambda>i. max 0 (load_ref_count L0 + int N - int i - 1)) [0..<k]
       \<and> load_ref_count L' = max 0 (load_ref_count L0 + int N - int k)
       \<and> unbind_calls (library_path L0) (this_ptr L0) w' =
           unbind_calls (library_path L0) (this_ptr L0) w
             + (if 1 \<le> load_ref_count L0 + int N \<and> load_ref_count L0 + int N \<le> int k
                then 1 else 0)
       \<and> (\<forall>r L1 w1. loadLibrary L0 w0 = (r, L1, w1) \<and> load_ref_count L0 < 2147483647
              \<longrightarrow> load_ref_count L1 = load_ref_count L0 + 1)"
proof -
  have L: "L = L0\<lparr>load_ref_count := load_ref_count L0 + int N\<rparr>"
    using loadLibrary_times_loader [OF assms(4,2,3)] .
  have p: "plugin_ref_count L = 0" and c: "0 \<le> load_ref_count L"
    and b: "load_ref_count L \<le> 2147483647"
    using L assms(1,2,3) by simp_all
  have one: "\<forall>r L1 w1. loadLibrary L0 w0 = (r, L1, w1) \<and> load_ref_count L0 < 2147483647
              \<longrightarrow> load_ref_count L1 = load_ref_count L0 + 1"
  proof (intro allI impI)
    fix r L1 w1
    assume h: "loadLibrary L0 w0 = (r, L1, w1) \<and> load_ref_count L0 < 2147483647"
    then have "int32 (load_ref_count L0 + 1) = load_ref_count L0 + 1"
      using assms(2) by (intro int32_id) simp_all
    with h loadLibrary_loader [of L0 w0 r L1 w1] show "load_ref_count L1 = load_ref_count L0 + 1"
      by simp
  qed
  from unloadLibrary_times_idle [OF p c b assms(5)] L one show ?thesis by simp
qed

theorem load_unload_symmetry_witness:
  "plugin_ref_count lazy_loader = 0 \<and> load_ref_count lazy_loader = 0
   \<and> loadLibrary_times 3 lazy_loader (initial_world disk) = Some thrice_loaded
   \<and> fst (unloadLibrary_times 4 (fst thrice_loaded) (snd thrice_loaded)) = [2, 1, 0, 0]
   \<and> load_ref_count (fst (snd (unloadLibrary_times 4 (fst thrice_loaded) (snd thrice_loaded)))) = 0
   \<and> unbind_calls ''./libPlugins.so'' 1
        (snd (snd (unloadLibrary_times 4 (fst thrice_loaded) (snd thrice_loaded)))) = 1
   \<and> load_ref_count (fst (snd (loadLibrary lazy_loader (initial_world disk)))) = 1"
proof -
  have h1: "plugin_ref_count lazy_loader = 0" and h2: "0 \<le> load_ref_count lazy_loader"
    and h0: "load_ref_count lazy_loader = 0"
    and h3: "load_ref_count lazy_loader + int 3 \<le> 2147483647"
    by (simp_all add: lazy_loader_def)
  have "case loadLibrary_times 3 lazy_loader (initial_world disk) of
          None \<Rightarrow> False | Some Lw \<Rightarrow> True"
    by code_simp
  then have h4: "loadLibrary_times 3 lazy_loader (initial_world disk) =
                   Some (fst thrice_loaded, snd thrice_loaded)"
    by (auto simp: thrice_loaded_def split: option.splits)
  have h5: "unloadLibrary_times 4 (fst thrice_loaded) (snd thrice_loaded) =
              (fst (unloadLibrary_times 4 (fst thrice_loaded) (snd thrice_loaded)),
               fst (snd (unloadLibrary_times 4 (fst thrice_loaded) (snd thrice_loaded))),
               snd (snd (unloadLibrary_times 4 (fst thrice_loaded) (snd thrice_loaded))))"
    by simp
  have u0: "unbind_calls ''./libPlugins.so'' 1 (snd thrice_loaded) = 0"
    by code_simp
  have m: "map (\<lambda>i. max 0 (load_ref_count lazy_loader + int 3 - int i - 1)) [0..<4] = [2, 1, 0, 0]"
    by code_simp
  have l1: "loadLibrary lazy_loader (initial_world disk) =
              (fst (loadLibrary lazy_loader (initial_world disk)),
               fst (snd (loadLibrary lazy_loader (initial_world disk))),
               snd (snd (loadLibrary lazy_loader (initial_world disk))))"
    by simp
  have lt: "load_ref_count lazy_loader < 2147483647"
    by (simp add: lazy_loader_def)
  note th = load_unload_symmetry [OF h1 h2 h3 h4 h5]
  from th l1 lt
  have "load_ref_count (fst (snd (loadLibrary lazy_loader (initial_world disk)))) =
          load_ref_count lazy_loader + 1"
    by blast
  then have e: "load_ref_count (fst (snd (loadLibrary lazy_loader (initial_world disk)))) = 1"
    using h0 by simp
  from th h0 u0 m
  have r: "fst (unloadLibrary_times 4 (fst thrice_loaded) (snd thrice_loaded)) = [2, 1, 0, 0]
     \<and> load_ref_count (fst (snd (unloadLibrary_times 4 (fst thrice_loaded) (snd thrice_loaded)))) = 0
     \<and> unbind_calls ''./libPlugins.so'' 1
          (snd (snd (unloadLibrary_times 4 (fst thrice_loaded) (snd thrice_loaded)))) = 1"
    by (simp add: lazy_loader_def)
  from h1 h0 h4 r e show ?thesis by simp
qed

text \<open>
  One successful load can need two unloads: the first \<^verbatim>\<open>loadLibrary()\<close> of the lazy
  loader throws, because the library is not installed, and still counts; after the
  second, successful load the first \<^verbatim>\<open>unloadLibrary()\<close> returns 1 and the library
  stays loaded.
\<close>

theorem failed_load_counts_counterexample:
  "fst failed_load =
     Inl (LibraryLoadException
            (''Could not load library: ./libPlugins.so''
               @ '': cannot open shared object file: No such file or directory''))
   \<and> fst load_after_install = Inr ()
   \<and> plugin_ref_count (fst (snd load_after_install)) = 0
   \<and> fst (unloadLibrary_times 2 (fst (snd load_after_install)) (snd (snd load_after_install)))
       = [1, 0]
   \<and> unbind_calls ''./libPlugins.so'' 1
        (snd (snd (unloadLibrary_times 1 (fst (snd load_after_install))
                     (snd (snd load_after_install))))) = 0
   \<and> isLibraryLoaded (fst (snd load_after_install))
        (snd (snd (unloadLibrary_times 1 (fst (snd load_after_install))
                     (snd (snd load_after_install)))))
   \<and> unbind_calls ''./libPlugins.so'' 1
        (snd (snd (unloadLibrary_times 2 (fst (snd load_after_install))
                     (snd (snd load_after_install))))) = 1"
  by code_simp

text \<open>
  And one successful load can need no unload at all: in on-demand mode the release of
  the last instance unloads, so the loader is left with no outstanding instance, a load
  count of 0 and its library unloaded.
\<close>

lemma on_demand_release_spends_a_load:
  "fst (loadLibrary lazy_loader (initial_world disk)) = Inr ()
   \<and> (case release_on_demand of
         None \<Rightarrow> False
       | Some (L, w) \<Rightarrow>
           plugin_ref_count L = 0 \<and> load_ref_count L = 0
           \<and> unbind_calls ''./libPlugins.so'' 1 w = 1
           \<and> \<not> isLibraryLoaded L w)"
  by code_simp

text \<open>
  C3. While instances created by a loader are outstanding (\<^verbatim>\<open>plugin_ref_count_ > 0\<close>),
  \<^verbatim>\<open>unloadLibrary()\<close> returns the load count as it is and leaves the loader as it is;
  the process-wide state only gains the warning on the console: what is loaded, for the
  loader or for anybody, is unchanged, and the registry is not asked to unload.
\<close>

theorem unloadLibrary_refused:
  assumes "plugin_ref_count L > 0"
  shows "unloadLibrary L w = (load_ref_count L, L, logWarn w)
       \<and> isLibraryLoaded L (logWarn w) = isLibraryLoaded L w
       \<and> isLibraryLoadedByAnyClassloader L (logWarn w) = isLibraryLoadedByAnyClassloader L w
       \<and> unbind_calls p l (logWarn w) = unbind_calls p l w"
  using assms
  by (simp add: unloadLibrary_def unloadLibraryInternal_def isLibraryLoaded_def
        impl_isLibraryLoaded_def isLibraryLoadedByAnyClassloader_def
        impl_isLibraryLoadedByAnybody_def unbind_calls_def emit_def)

theorem unloadLibrary_refused_witness:
  "plugin_ref_count (utest_loader\<lparr>plugin_ref_count := 1\<rparr>) > 0
   \<and> unloadLibrary (utest_loader\<lparr>plugin_ref_count := 1\<rparr>) utest_world =
       (1, utest_loader\<lparr>plugin_ref_count := 1\<rparr>, logWarn utest_world)"
  using unloadLibrary_refused [of "utest_loader\<lparr>plugin_ref_count := 1\<rparr>" utest_world]
  by (simp add: utest_loader_def)




text \<open>
  In on-demand mode the lookup loads each loader it visits, and a library that cannot
  be mapped makes the call fail with \<^verbatim>\<open>LibraryLoadException\<close>.
\<close>

lemma multi_create_may_fail_to_load:
  "fst (MultiLibraryPluginLoader_createSharedInstance ''B'' ''Q''
          (fst (snd (MultiLibraryPluginLoader_loadLibrary 1 ''./does-not-exist''
                       (MultiLibraryPluginLoader_ctor True) (initial_world disk))))
          (snd (snd (MultiLibraryPluginLoader_loadLibrary 1 ''./does-not-exist''
                       (MultiLibraryPluginLoader_ctor True) (initial_world disk))))) =
     Inl (LibraryLoadException
            (''Could not load library: ./does-not-exist''
               @ '': cannot open shared object file: No such file or directory''))"
  by code_simp

text \<open>
  C5. \<^verbatim>\<open>impl::createInstance\<close> constructs when the factory found is owned by the
  requesting loader; it constructs too, after one more debug line on the console, when
  the factory has no owner; it raises exactly when no factory is registered under the
  name, or the factory is neither owned by the requesting loader nor without owner; and
  what it raises is \<^verbatim>\<open>CreateClassException\<close>.
\<close>

theorem createInstance_outcomes:
  "(\<forall>f. cmap_find cname (getFactoryMapForBaseClass base w) = Some f \<and> isOwnedBy f loader
        \<longrightarrow> createInstance base cname loader w = (Inr (create f), logDebug w))
   \<and> (\<forall>f. cmap_find cname (getFactoryMapForBaseClass base w) = Some f
          \<and> \<not> isOwnedBy f loader \<and> isOwnedBy f None
        \<longrightarrow> createInstance base cname loader w = (Inr (create f), logDebug (logDebug w)))
   \<and> ((\<exists>e w'. createInstance base cname loader w = (Inl e, w'))
        \<longleftrightarrow> (cmap_find cname (getFactoryMapForBaseClass base w) = None
             \<or> (\<exists>f. cmap_find cname (getFactoryMapForBaseClass base w) = Some f
                    \<and> \<not> isOwnedBy f loader \<and> \<not> isOwnedBy f None)))
   \<and> (\<forall>e w'. createInstance base cname loader w = (Inl e, w')
        \<longrightarrow> e = CreateClassException (''Could not create instance of type '' @ cname))"
  by (auto simp: createInstance_def Let_def split: option.splits)

theorem createInstance_outcomes_witness:
  "createInstance ''B'' ''X'' (Some 2) two_libraries_world =
     (Inr (Obj ''AX''), logDebug two_libraries_world)
   \<and> createInstance ''B'' ''Y'' (Some 2) two_libraries_world =
     (Inr (Obj ''HostY''), logDebug (logDebug two_libraries_world))
   \<and> (\<exists>e w'. createInstance ''B'' ''Z'' (Some 2) two_libraries_world = (Inl e, w'))
   \<and> (\<exists>e w'. createInstance ''B'' ''Q'' (Some 2) two_libraries_world = (Inl e, w'))"
proof -
  have x: "cmap_find ''X'' (getFactoryMapForBaseClass ''B'' two_libraries_world) =
             Some \<lparr>class_name = ''X'', base_class_name = ''B'', derived_type = ''AX'',
                   associated_library_path = ''libA.so'', owners = [2]\<rparr>"
    by code_simp
  have y: "cmap_find ''Y'' (getFactoryMapForBaseClass ''B'' two_libraries_world) =
             Some \<lparr>class_name = ''Y'', base_class_name = ''B'', derived_type = ''HostY'',
                   associated_library_path = [], owners = []\<rparr>"
    by code_simp
  have z: "cmap_find ''Z'' (getFactoryMapForBaseClass ''B'' two_libraries_world) =
             Some \<lparr>class_name = ''Z'', base_class_name = ''B'', derived_type = ''BZ'',
                   associated_library_path = ''libB.so'', owners = [1]\<rparr>"
    by code_simp
  have q: "cmap_find ''Q'' (getFactoryMapForBaseClass ''B'' two_libraries_world) = None"
    by code_simp
  show ?thesis
    using createInstance_outcomes [of "''X''" "''B''" two_libraries_world "Some 2"]
          createInstance_outcomes [of "''Y''" "''B''" two_libraries_world "Some 2"]
          createInstance_outcomes [of "''Z''" "''B''" two_libraries_world "Some 2"]
          createInstance_outcomes [of "''Q''" "''B''" two_libraries_world "Some 2"]
          x y z q
    by (simp add: create_def)
qed

text \<open>
  C6. \<^verbatim>\<open>registerPlugin\<close> for a base and a class name that already have a factory
  overwrites it: the map then yields the factory just made (with the loader and the
  library that are current), and the console gains the debug lines and one warning.
  The function raises nothing.
\<close>

theorem registerPlugin_overwrites:
  assumes "cmap_find cname (getFactoryMapForBaseClass base w) = Some old"
  shows "cmap_find cname (getFactoryMapForBaseClass base (registerPlugin derived base cname bname w))
           = Some \<lparr>class_name = cname, base_class_name = bname, derived_type = derived,
                   associated_library_path = currently_loading_library_name w,
                   owners = (case currently_active_plugin_loader w of None \<Rightarrow> [] | Some l \<Rightarrow> [l])\<rparr>
         \<and> trace (registerPlugin derived base cname bname w)
           = trace w @ [Log Debug]
               @ (if currently_active_plugin_loader w = None then [Log Debug] else [])
               @ [Log Warn, Log Debug]"
  using assms
  by (auto simp: registerPlugin_def Let_def getFactoryMap_setFactoryMap cmap_find_assign
        getCurrentlyActivePluginLoader_def getCurrentlyLoadingLibraryName_def
        set_hasANonPurePluginLibraryBeenOpened_def setAssociatedLibraryPath_def MetaObject_def
        emit_def getFactoryMapForBaseClass_def setFactoryMapForBaseClass_def
        split: option.splits)

theorem registerPlugin_overwrites_witness:
  "cmap_find ''Y'' (getFactoryMapForBaseClass ''B'' host_linked_world) =
     Some \<lparr>class_name = ''Y'', base_class_name = ''B'', derived_type = ''HostY'',
           associated_library_path = [], owners = []\<rparr>
   \<and> cmap_find ''Y'' (getFactoryMapForBaseClass ''B''
        (registerPlugin ''OtherY'' ''B'' ''Y'' ''B'' host_linked_world)) =
     Some \<lparr>class_name = ''Y'', base_class_name = ''B'', derived_type = ''OtherY'',
           associated_library_path = [], owners = []\<rparr>"
proof -
  have h: "cmap_find ''Y'' (getFactoryMapForBaseClass ''B'' host_linked_world) =
     Some \<lparr>class_name = ''Y'', base_class_name = ''B'', derived_type = ''HostY'',
           associated_library_path = [], owners = []\<rparr>"
    by code_simp
  have c: "currently_loading_library_name host_linked_world = []"
    "currently_active_plugin_loader host_linked_world = None"
    by code_simp+
  from registerPlugin_overwrites [OF h, of "''OtherY''" "''B''"] h c show ?thesis by simp
qed

text \<open>
  C7, as the code has it. When \<^verbatim>\<open>dlopen\<close> cannot map the path,
  \<^verbatim>\<open>SharedLibrary::load\<close> raises \<^verbatim>\<open>LibraryLoadException\<close> with the message
  \<^verbatim>\<open>"Could not load library: "\<close> followed by the string of \<^verbatim>\<open>dlerror()\<close> when there is
  one, and by the path only when there is none. The payload so contains the platform
  error; it contains the requested path where there is no platform error, or where the
  platform error names that path, as it does when no file is found under it. The
  constructor of a loader that is not in on-demand mode fails with the same exception
  when no record of the library exists: on a nonexistent path, with a payload that
  contains the path.
\<close>

theorem unmappable_library_payload:
  assumes "dlopen w path = DlFail reason"
  shows "(\<exists>payload.
            SharedLibrary_load False path w = (Inl (LibraryLoadException payload), w)
          \<and> payload = ''Could not load library: ''
                        @ (case dlerror path reason of Some err \<Rightarrow> err | None \<Rightarrow> path)
          \<and> (\<forall>err. dlerror path reason = Some err \<longrightarrow> contains payload err)
          \<and> (dlerror path reason = None \<longrightarrow> contains payload path)
          \<and> (reason = NoSuchFile \<longrightarrow> contains payload path)
          \<and> (\<not> impl_isLibraryLoadedByAnybody path w
                \<longrightarrow> fst (PluginLoader_ctor this path False w) = Inl (LibraryLoadException payload)))"
proof -
  let ?payload = "''Could not load library: ''
                        @ (case dlerror path reason of Some err \<Rightarrow> err | None \<Rightarrow> path)"
  have a: "SharedLibrary_load False path w = (Inl (LibraryLoadException ?payload), w)"
    using assms by (simp add: SharedLibrary_load_def)
  have b: "\<forall>err. dlerror path reason = Some err \<longrightarrow> contains ?payload err"
  proof (intro allI impI)
    fix err assume "dlerror path reason = Some err"
    then have "?payload = ''Could not load library: '' @ err @ []" by simp
    then show "contains ?payload err" using contains_middle [of "''Could not load library: ''" err "[]"]
      by metis
  qed
  have c: "dlerror path reason = None \<longrightarrow> contains ?payload path"
  proof
    assume "dlerror path reason = None"
    then have "?payload = ''Could not load library: '' @ path @ []" by simp
    then show "contains ?payload path" using contains_middle [of "''Could not load library: ''" path "[]"]
      by metis
  qed
  have d: "reason = NoSuchFile \<longrightarrow> contains ?payload path"
  proof
    assume "reason = NoSuchFile"
    then have "?payload = ''Could not load library: '' @ path
                 @ '': cannot open shared object file: No such file or directory''" by simp
    then show "contains ?payload path"
      using contains_middle [of "''Could not load library: ''" path
              "'': cannot open shared object file: No such file or directory''"]
      by metis
  qed
  have e: "\<not> impl_isLibraryLoadedByAnybody path w
             \<longrightarrow> fst (PluginLoader_ctor this path False w) = Inl (LibraryLoadException ?payload)"
    by (intro impI) (rule ctor_unmappable [OF assms])
  show ?thesis
    by (rule exI [of _ ?payload]) (intro conjI a refl b c d e)
qed

theorem unmappable_library_payload_witness:
  "dlopen (initial_world disk) ''./does-not-exist'' = DlFail NoSuchFile
   \<and> fst (PluginLoader_ctor 1 ''./does-not-exist'' False (initial_world disk)) =
       Inl (LibraryLoadException
              (''Could not load library: ./does-not-exist''
                 @ '': cannot open shared object file: No such file or directory''))
   \<and> contains (''Could not load library: ./does-not-exist''
                 @ '': cannot open shared object file: No such file or directory'')
        ''./does-not-exist''"
proof -
  have h: "dlopen (initial_world disk) ''./does-not-exist'' = DlFail NoSuchFile"
    by (simp add: initial_world_def disk_def)
  have n: "\<not> impl_isLibraryLoadedByAnybody ''./does-not-exist'' (initial_world disk)"
    by (simp add: impl_isLibraryLoadedByAnybody_def initial_world_def)
  from unmappable_library_payload [OF h, of 1] n h show ?thesis by simp
qed

text \<open>
  The payload need not contain the requested path: \<^verbatim>\<open>./libBroken.so\<close> is found, the
  library \<^verbatim>\<open>libmissing.so\<close> that it needs is not, and the platform error, which is all
  that the message holds, names the missing library.
\<close>

theorem missing_dependency_payload_counterexample:
  "dlopen (initial_world disk) ''./libBroken.so'' = DlFail (MissingDependency ''libmissing.so'')
   \<and> fst (PluginLoader_ctor 1 ''./libBroken.so'' False (initial_world disk)) =
       Inl (LibraryLoadException
              (''Could not load library: libmissing.so''
                 @ '': cannot open shared object file: No such file or directory''))
   \<and> \<not> contains (''Could not load library: libmissing.so''
                 @ '': cannot open shared object file: No such file or directory'')
        ''./libBroken.so''"
  by code_simp

text \<open>
  C8. \<^verbatim>\<open>registerPlugin\<close>, called while no loader is the currently active one, sets
  the non-pure flag; and no sequence of operations of the registry, of loaders and of
  multi-library loaders takes the flag from true back to false.
\<close>

theorem non_pure_flag_set_and_kept:
  "(currently_active_plugin_loader w = None
      \<longrightarrow> hasANonPurePluginLibraryBeenOpened (registerPlugin derived base cname bname w))
   \<and> (op_step\<^sup>*\<^sup>* w w' \<longrightarrow> hasANonPurePluginLibraryBeenOpened w
        \<longrightarrow> hasANonPurePluginLibraryBeenOpened w')"
proof -
  have "op_step\<^sup>*\<^sup>* w w' \<Longrightarrow> non_pure_plugin_library_opened w \<Longrightarrow> non_pure_plugin_library_opened w'"
    by (induction rule: rtranclp_induct) (auto dest: flag_op_step)
  then show ?thesis
    by (auto simp: hasANonPurePluginLibraryBeenOpened_def flag_registerPlugin)
qed

theorem non_pure_flag_set_and_kept_witness:
  "currently_active_plugin_loader (initial_world disk) = None
   \<and> hasANonPurePluginLibraryBeenOpened host_linked_world
   \<and> op_step\<^sup>*\<^sup>* host_linked_world two_libraries_world
   \<and> hasANonPurePluginLibraryBeenOpened two_libraries_world"
proof -
  have a: "currently_active_plugin_loader (initial_world disk) = None"
    by (simp add: initial_world_def)
  have s1: "op_step host_linked_world (snd (snd multi_after_libB))"
    by (rule step_multi_loadLibrary
          [of 1 "''libB.so''" "MultiLibraryPluginLoader_ctor False" host_linked_world
              "fst multi_after_libB" "fst (snd multi_after_libB)"])
       (simp add: multi_after_libB_def)
  have s2: "op_step (snd (snd multi_after_libB)) two_libraries_world"
    by (rule step_multi_loadLibrary
          [of 2 "''libA.so''" "fst (snd multi_after_libB)" "snd (snd multi_after_libB)"
              "fst multi_after_libA" two_libraries])
       (simp add: multi_after_libA_def two_libraries_def two_libraries_world_def)
  from s1 s2 have r: "op_step\<^sup>*\<^sup>* host_linked_world two_libraries_world"
    by (meson rtranclp.rtrancl_into_rtrancl rtranclp.rtrancl_refl)
  from non_pure_flag_set_and_kept
         [of "initial_world disk" "''HostY''" "''B''" "''Y''" "''B''" two_libraries_world]
       a
  have b: "hasANonPurePluginLibraryBeenOpened host_linked_world"
    by (simp add: host_linked_world_def)
  from non_pure_flag_set_and_kept
         [of host_linked_world "''HostY''" "''B''" "''Y''" "''B''" two_libraries_world] r b
  have "hasANonPurePluginLibraryBeenOpened two_libraries_world" by blast
  with a b r show ?thesis by blast
qed

text \<open>
  C9 asks the destructor to unload until the load count is zero. The destructor calls
  \<^verbatim>\<open>unloadLibrary()\<close> once: a loader that was loaded twice dies with a load count of
  1, the registry is never asked to unload its library, and the library stays loaded.
\<close>

theorem destructor_unloads_once:
  "load_ref_count (fst twice_loaded) = 2
   \<and> plugin_ref_count (fst twice_loaded) = 0
   \<and> load_ref_count (fst (PluginLoader_dtor (fst twice_loaded) (snd twice_loaded))) = 1
   \<and> unbind_calls ''./libPlugins.so'' 1
        (snd (PluginLoader_dtor (fst twice_loaded) (snd twice_loaded))) = 0
   \<and> isLibraryLoaded (fst twice_loaded)
        (snd (PluginLoader_dtor (fst twice_loaded) (snd twice_loaded)))"
  by code_simp

text \<open>
  C10. \<^verbatim>\<open>onPluginDeletion\<close> with a null pointer returns at once, whatever the counts
  and the mode of the loader: the loader is as it was, the process-wide state only
  gains the debug line on the console, and the registry is not asked to unload.
\<close>

theorem onPluginDeletion_null:
  "onPluginDeletion None L w = Some (L, logDebug w)
   \<and> unbind_calls p l (logDebug w) = unbind_calls p l w
   \<and> isLibraryLoaded L (logDebug w) = isLibraryLoaded L w"
  by (simp add: onPluginDeletion_def unbind_calls_def emit_def isLibraryLoaded_def
        impl_isLibraryLoaded_def)

end
